theory Spec2Isabelle
  imports Main "HOL-Library.Sublist"
begin

section \<open>Python values and exceptions\<close>

text \<open>
  The bot (\<^verbatim>\<open>homework.py\<close>) polls a review API, relays the status of the newest homework
  to a chat and reports failures there. It is embedded as pure functions: what the outside
  world does in one cycle (the HTTP request, the bot client, the clock) is an explicit
  argument, an exception is the \<open>Inl\<close> of a sum, the two locals of \<^verbatim>\<open>main\<close> are a record, and
  every logging call, bot call and sleep is an entry of a returned trace.

  A Python \<^verbatim>\<open>str\<close> is represented by its UTF-8 encoding, so an ASCII literal of the source is
  the same literal here and a Cyrillic one is the list of its bytes.

  A decoded JSON body is a \<open>pyval\<close>. A \<^verbatim>\<open>dict\<close> is an association list read with \<open>map_of\<close>
  (its keys are strings, as JSON has them); the payload of \<open>PFloat\<close> is the text Python prints
  for the number.
\<close>

datatype pyval =
    PNone
  | PBool bool
  | PInt int
  | PFloat string
  | PStr string
  | PList "pyval list"
  | PDict "(string \<times> pyval) list"

text \<open>
  Exceptions carry their class and the text \<^verbatim>\<open>str(error)\<close> yields. The classes are the
  ones the module raises or tells apart; \<open>OtherException\<close> stands for any further subclass
  of \<^verbatim>\<open>Exception\<close> a library may raise (a JSON decoding error, a request timeout), and
  \<open>PySystemExit\<close> for what \<^verbatim>\<open>sys.exit\<close> raises, which is not an \<^verbatim>\<open>Exception\<close>.
\<close>

datatype exn_class =
    PyException
  | PyTypeError
  | PyKeyError
  | PyAttributeError
  | PyUnboundLocalError
  | PySystemExit
  | EasyError
  | EmptyKeyError
  | RequestsConnectionError
  | TelegramError
  | OtherException

datatype exn = Exn (exn_cls: exn_class) (exn_str: string)

text \<open>
  Modelled from the spec: \<^verbatim>\<open>exceptions.py\<close>, which declares \<^verbatim>\<open>EasyError\<close> and \<^verbatim>\<open>EmptyKeyError\<close>,
  is not among the sources. The spec calls the easy error "a named subclass representing
  expected/benign missing-field conditions", so \<^verbatim>\<open>EmptyKeyError\<close>, the missing-field error of
  \<^verbatim>\<open>check_response\<close>, is taken to be a subclass of \<^verbatim>\<open>EasyError\<close>, and \<^verbatim>\<open>str\<close> of either to be
  its message, as for \<^verbatim>\<open>Exception\<close>.
\<close>

definition is_EasyError :: "exn \<Rightarrow> bool" where
  "is_EasyError error = (exn_cls error = EasyError \<or> exn_cls error = EmptyKeyError)"

definition is_Exception :: "exn \<Rightarrow> bool" where
  "is_Exception error = (exn_cls error \<noteq> PySystemExit)"

definition is_TelegramError :: "exn \<Rightarrow> bool" where
  "is_TelegramError error = (exn_cls error = TelegramError)"

definition is_ConnectionError :: "exn \<Rightarrow> bool" where
  "is_ConnectionError error = (exn_cls error = RequestsConnectionError)"

text \<open>
  What the Python runtime itself contributes is a parameter of the model: \<open>repr\<close> is
  \<^verbatim>\<open>repr\<close> on decoded values (it is \<^verbatim>\<open>str\<close> on every value that is not a string, and
  \<^verbatim>\<open>str\<close> of a \<^verbatim>\<open>KeyError\<close> is \<^verbatim>\<open>repr\<close> of its argument), and \<open>wording\<close> is the message of
  the errors the interpreter raises on its own.
\<close>

datatype fault =
    NotIterable pyval
  | NotSubscriptable pyval
  | Unhashable pyval
  | NoAttribute pyval string
  | Unbound string

record interpreter =
  repr :: "pyval \<Rightarrow> string"
  wording :: "fault \<Rightarrow> string"

text \<open>\<^verbatim>\<open>str(v)\<close>, as an f-string applies it.\<close>

fun py_str :: "interpreter \<Rightarrow> pyval \<Rightarrow> string" where
  "py_str py (PStr s) = s"
| "py_str py v = repr py v"

text \<open>\<^verbatim>\<open>str(i)\<close> of an integer: its decimal digits, with a sign when negative.\<close>

fun str_nat :: "nat \<Rightarrow> string" where
  "str_nat n =
     (if n < 10 then [''0123456789'' ! n]
      else str_nat (n div 10) @ [''0123456789'' ! (n mod 10)])"

declare str_nat.simps [simp del]

definition str_int :: "int \<Rightarrow> string" where
  "str_int i = (if i < 0 then ''-'' @ str_nat (nat (- i)) else str_nat (nat i))"

text \<open>\<^verbatim>\<open>key in obj\<close> for a string key: key lookup in a dict, element lookup in a list,
  substring search in a string, a \<^verbatim>\<open>TypeError\<close> on anything else.\<close>

fun py_in :: "interpreter \<Rightarrow> string \<Rightarrow> pyval \<Rightarrow> exn + bool" where
  "py_in py k (PDict d) = Inr (map_of d k \<noteq> None)"
| "py_in py k (PList xs) = Inr (PStr k \<in> set xs)"
| "py_in py k (PStr s) = Inr (sublist k s)"
| "py_in py k v = Inl (Exn PyTypeError (wording py (NotIterable v)))"

text \<open>\<^verbatim>\<open>obj[key]\<close> for a string key: only a dict can be indexed by a string.\<close>

fun py_getitem :: "interpreter \<Rightarrow> pyval \<Rightarrow> string \<Rightarrow> exn + pyval" where
  "py_getitem py (PDict d) k =
     (case map_of d k of
        Some v \<Rightarrow> Inr v
      | None \<Rightarrow> Inl (Exn PyKeyError (repr py (PStr k))))"
| "py_getitem py v k = Inl (Exn PyTypeError (wording py (NotSubscriptable v)))"

text \<open>\<^verbatim>\<open>obj.get(key, default)\<close>: a method of dicts only.\<close>

fun py_get :: "interpreter \<Rightarrow> pyval \<Rightarrow> string \<Rightarrow> pyval \<Rightarrow> exn + pyval" where
  "py_get py (PDict d) k dflt =
     (case map_of d k of Some v \<Rightarrow> Inr v | None \<Rightarrow> Inr dflt)"
| "py_get py v k dflt = Inl (Exn PyAttributeError (wording py (NoAttribute v ''get'')))"

section \<open>The constants of the module\<close>

definition RETRY_TIME :: nat where
  "RETRY_TIME = 600"

text \<open>Line 33: the verdict text for \<open>approved\<close> ("work checked: the reviewer liked everything")\<close>

definition VERDICT_APPROVED :: string where
  "VERDICT_APPROVED =
     [CHR 0xD0, CHR 0xA0, CHR 0xD0, CHR 0xB0, CHR 0xD0, CHR 0xB1, CHR 0xD0, CHR 0xBE,
     CHR 0xD1, CHR 0x82, CHR 0xD0, CHR 0xB0] @ '' '' @ [CHR 0xD0, CHR 0xBF, CHR 0xD1,
     CHR 0x80, CHR 0xD0, CHR 0xBE, CHR 0xD0, CHR 0xB2, CHR 0xD0, CHR 0xB5, CHR 0xD1,
     CHR 0x80, CHR 0xD0, CHR 0xB5, CHR 0xD0, CHR 0xBD, CHR 0xD0, CHR 0xB0] @ '': '' @
     [CHR 0xD1, CHR 0x80, CHR 0xD0, CHR 0xB5, CHR 0xD0, CHR 0xB2, CHR 0xD1, CHR 0x8C,
     CHR 0xD1, CHR 0x8E, CHR 0xD0, CHR 0xB5, CHR 0xD1, CHR 0x80, CHR 0xD1, CHR 0x83] @
     '' '' @ [CHR 0xD0, CHR 0xB2, CHR 0xD1, CHR 0x81, CHR 0xD1, CHR 0x91] @ '' '' @
     [CHR 0xD0, CHR 0xBF, CHR 0xD0, CHR 0xBE, CHR 0xD0, CHR 0xBD, CHR 0xD1, CHR 0x80,
     CHR 0xD0, CHR 0xB0, CHR 0xD0, CHR 0xB2, CHR 0xD0, CHR 0xB8, CHR 0xD0, CHR 0xBB,
     CHR 0xD0, CHR 0xBE, CHR 0xD1, CHR 0x81, CHR 0xD1, CHR 0x8C] @ ''. '' @ [CHR 0xD0,
     CHR 0xA3, CHR 0xD1, CHR 0x80, CHR 0xD0, CHR 0xB0] @ ''!''"

text \<open>Line 34: the verdict text for \<open>reviewing\<close> ("work taken for review")\<close>

definition VERDICT_REVIEWING :: string where
  "VERDICT_REVIEWING =
     [CHR 0xD0, CHR 0xA0, CHR 0xD0, CHR 0xB0, CHR 0xD0, CHR 0xB1, CHR 0xD0, CHR 0xBE,
     CHR 0xD1, CHR 0x82, CHR 0xD0, CHR 0xB0] @ '' '' @ [CHR 0xD0, CHR 0xB2, CHR 0xD0,
     CHR 0xB7, CHR 0xD1, CHR 0x8F, CHR 0xD1, CHR 0x82, CHR 0xD0, CHR 0xB0] @ '' '' @
     [CHR 0xD0, CHR 0xBD, CHR 0xD0, CHR 0xB0] @ '' '' @ [CHR 0xD0, CHR 0xBF, CHR 0xD1,
     CHR 0x80, CHR 0xD0, CHR 0xBE, CHR 0xD0, CHR 0xB2, CHR 0xD0, CHR 0xB5, CHR 0xD1,
     CHR 0x80, CHR 0xD0, CHR 0xBA, CHR 0xD1, CHR 0x83] @ '' '' @ [CHR 0xD1, CHR 0x80,
     CHR 0xD0, CHR 0xB5, CHR 0xD0, CHR 0xB2, CHR 0xD1, CHR 0x8C, CHR 0xD1, CHR 0x8E,
     CHR 0xD0, CHR 0xB5, CHR 0xD1, CHR 0x80, CHR 0xD0, CHR 0xBE, CHR 0xD0, CHR 0xBC] @
     ''.''"

text \<open>Line 35: the verdict text for \<open>rejected\<close> ("work checked: the reviewer has remarks")\<close>

definition VERDICT_REJECTED :: string where
  "VERDICT_REJECTED =
     [CHR 0xD0, CHR 0xA0, CHR 0xD0, CHR 0xB0, CHR 0xD0, CHR 0xB1, CHR 0xD0, CHR 0xBE,
     CHR 0xD1, CHR 0x82, CHR 0xD0, CHR 0xB0] @ '' '' @ [CHR 0xD0, CHR 0xBF, CHR 0xD1,
     CHR 0x80, CHR 0xD0, CHR 0xBE, CHR 0xD0, CHR 0xB2, CHR 0xD0, CHR 0xB5, CHR 0xD1,
     CHR 0x80, CHR 0xD0, CHR 0xB5, CHR 0xD0, CHR 0xBD, CHR 0xD0, CHR 0xB0] @ '': '' @
     [CHR 0xD1, CHR 0x83] @ '' '' @ [CHR 0xD1, CHR 0x80, CHR 0xD0, CHR 0xB5, CHR 0xD0,
     CHR 0xB2, CHR 0xD1, CHR 0x8C, CHR 0xD1, CHR 0x8E, CHR 0xD0, CHR 0xB5, CHR 0xD1,
     CHR 0x80, CHR 0xD0, CHR 0xB0] @ '' '' @ [CHR 0xD0, CHR 0xB5, CHR 0xD1, CHR 0x81,
     CHR 0xD1, CHR 0x82, CHR 0xD1, CHR 0x8C] @ '' '' @ [CHR 0xD0, CHR 0xB7, CHR 0xD0,
     CHR 0xB0, CHR 0xD0, CHR 0xBC, CHR 0xD0, CHR 0xB5, CHR 0xD1, CHR 0x87, CHR 0xD0,
     CHR 0xB0, CHR 0xD0, CHR 0xBD, CHR 0xD0, CHR 0xB8, CHR 0xD1, CHR 0x8F] @ ''.''"

text \<open>Line 43: "message sent"\<close>

definition MSG_SENT :: string where
  "MSG_SENT =
     [CHR 0xD0, CHR 0xA1, CHR 0xD0, CHR 0xBE, CHR 0xD0, CHR 0xBE, CHR 0xD0, CHR 0xB1,
     CHR 0xD1, CHR 0x89, CHR 0xD0, CHR 0xB5, CHR 0xD0, CHR 0xBD, CHR 0xD0, CHR 0xB8,
     CHR 0xD0, CHR 0xB5] @ '' '' @ [CHR 0xD0, CHR 0xBE, CHR 0xD1, CHR 0x82, CHR 0xD0,
     CHR 0xBF, CHR 0xD1, CHR 0x80, CHR 0xD0, CHR 0xB0, CHR 0xD0, CHR 0xB2, CHR 0xD0,
     CHR 0xBB, CHR 0xD0, CHR 0xB5, CHR 0xD0, CHR 0xBD, CHR 0xD0, CHR 0xBE]"

text \<open>Line 45: "error while sending the message ", followed by the error\<close>

definition MSG_SEND_FAILED :: string where
  "MSG_SEND_FAILED =
     [CHR 0xD0, CHR 0x9E, CHR 0xD1, CHR 0x88, CHR 0xD0, CHR 0xB8, CHR 0xD0, CHR 0xB1,
     CHR 0xD0, CHR 0xBA, CHR 0xD0, CHR 0xB0] @ '' '' @ [CHR 0xD0, CHR 0xBF, CHR 0xD1,
     CHR 0x80, CHR 0xD0, CHR 0xB8] @ '' '' @ [CHR 0xD0, CHR 0xBE, CHR 0xD1, CHR 0x82,
     CHR 0xD0, CHR 0xBF, CHR 0xD1, CHR 0x80, CHR 0xD0, CHR 0xB0, CHR 0xD0, CHR 0xB2,
     CHR 0xD0, CHR 0xBA, CHR 0xD0, CHR 0xB5] @ '' '' @ [CHR 0xD1, CHR 0x81, CHR 0xD0,
     CHR 0xBE, CHR 0xD0, CHR 0xBE, CHR 0xD0, CHR 0xB1, CHR 0xD1, CHR 0x89, CHR 0xD0,
     CHR 0xB5, CHR 0xD0, CHR 0xBD, CHR 0xD0, CHR 0xB8, CHR 0xD1, CHR 0x8F] @ '' ''"

text \<open>Line 56: "error while requesting the API endpoint"\<close>

definition MSG_ENDPOINT :: string where
  "MSG_ENDPOINT =
     [CHR 0xD0, CHR 0x9E, CHR 0xD1, CHR 0x88, CHR 0xD0, CHR 0xB8, CHR 0xD0, CHR 0xB1,
     CHR 0xD0, CHR 0xBA, CHR 0xD0, CHR 0xB0] @ '' '' @ [CHR 0xD0, CHR 0xBF, CHR 0xD1,
     CHR 0x80, CHR 0xD0, CHR 0xB8] @ '' '' @ [CHR 0xD0, CHR 0xB7, CHR 0xD0, CHR 0xB0,
     CHR 0xD0, CHR 0xBF, CHR 0xD1, CHR 0x80, CHR 0xD0, CHR 0xBE, CHR 0xD1, CHR 0x81,
     CHR 0xD0, CHR 0xB5] @ '' '' @ [CHR 0xD0, CHR 0xBA] @ '' '' @ [CHR 0xD1, CHR 0x8D,
     CHR 0xD0, CHR 0xBD, CHR 0xD0, CHR 0xB4, CHR 0xD0, CHR 0xBF, CHR 0xD0, CHR 0xBE,
     CHR 0xD0, CHR 0xB8, CHR 0xD0, CHR 0xBD, CHR 0xD1, CHR 0x82, CHR 0xD1, CHR 0x83] @
     '' API-'' @ [CHR 0xD1, CHR 0x81, CHR 0xD0, CHR 0xB5, CHR 0xD1, CHR 0x80, CHR 0xD0,
     CHR 0xB2, CHR 0xD0, CHR 0xB8, CHR 0xD1, CHR 0x81, CHR 0xD0, CHR 0xB0]"

text \<open>Line 60: "unexpected server response: ", followed by the status code\<close>

definition MSG_UNEXPECTED_STATUS :: string where
  "MSG_UNEXPECTED_STATUS =
     [CHR 0xD0, CHR 0x9D, CHR 0xD0, CHR 0xB5, CHR 0xD0, CHR 0xBE, CHR 0xD0, CHR 0xB6,
     CHR 0xD0, CHR 0xB8, CHR 0xD0, CHR 0xB4, CHR 0xD0, CHR 0xB0, CHR 0xD0, CHR 0xBD,
     CHR 0xD0, CHR 0xBD, CHR 0xD1, CHR 0x8B, CHR 0xD0, CHR 0xB9] @ '' '' @ [CHR 0xD0,
     CHR 0xBE, CHR 0xD1, CHR 0x82, CHR 0xD0, CHR 0xB2, CHR 0xD0, CHR 0xB5, CHR 0xD1,
     CHR 0x82] @ '' '' @ [CHR 0xD1, CHR 0x81, CHR 0xD0, CHR 0xB5, CHR 0xD1, CHR 0x80,
     CHR 0xD0, CHR 0xB2, CHR 0xD0, CHR 0xB5, CHR 0xD1, CHR 0x80, CHR 0xD0, CHR 0xB0] @
     '': ''"

text \<open>Line 67: "the API response is not a dictionary"\<close>

definition MSG_NOT_DICT :: string where
  "MSG_NOT_DICT =
     [CHR 0xD0, CHR 0xA2, CHR 0xD0, CHR 0xB8, CHR 0xD0, CHR 0xBF] @ '' '' @ [CHR 0xD0,
     CHR 0xBE, CHR 0xD1, CHR 0x82, CHR 0xD0, CHR 0xB2, CHR 0xD0, CHR 0xB5, CHR 0xD1,
     CHR 0x82, CHR 0xD0, CHR 0xB0] @ '' API '' @ [CHR 0xD0, CHR 0xBD, CHR 0xD0, CHR 0xB5] @
     '' '' @ [CHR 0xD1, CHR 0x8F, CHR 0xD0, CHR 0xB2, CHR 0xD0, CHR 0xBB, CHR 0xD1,
     CHR 0x8F, CHR 0xD0, CHR 0xB5, CHR 0xD1, CHR 0x82, CHR 0xD1, CHR 0x81, CHR 0xD1,
     CHR 0x8F] @ '' '' @ [CHR 0xD1, CHR 0x81, CHR 0xD0, CHR 0xBB, CHR 0xD0, CHR 0xBE,
     CHR 0xD0, CHR 0xB2, CHR 0xD0, CHR 0xB0, CHR 0xD1, CHR 0x80, CHR 0xD0, CHR 0xB5,
     CHR 0xD0, CHR 0xBC]"

text \<open>Line 69: "field homeworks is missing in the API response"\<close>

definition MSG_NO_HOMEWORKS :: string where
  "MSG_NO_HOMEWORKS =
     [CHR 0xD0, CHR 0x9E, CHR 0xD1, CHR 0x82, CHR 0xD1, CHR 0x81, CHR 0xD1, CHR 0x83,
     CHR 0xD1, CHR 0x82, CHR 0xD1, CHR 0x81, CHR 0xD1, CHR 0x82, CHR 0xD0, CHR 0xB2,
     CHR 0xD1, CHR 0x83, CHR 0xD0, CHR 0xB5, CHR 0xD1, CHR 0x82] @ '' '' @ [CHR 0xD0,
     CHR 0xBF, CHR 0xD0, CHR 0xBE, CHR 0xD0, CHR 0xBB, CHR 0xD0, CHR 0xB5] @
     '' homeworks '' @ [CHR 0xD0, CHR 0xB2] @ '' '' @ [CHR 0xD0, CHR 0xBE, CHR 0xD1,
     CHR 0x82, CHR 0xD0, CHR 0xB2, CHR 0xD0, CHR 0xB5, CHR 0xD1, CHR 0x82, CHR 0xD0,
     CHR 0xB5] @ '' API''"

text \<open>Line 72: "field current_date is missing in the API response"\<close>

definition MSG_NO_CURRENT_DATE :: string where
  "MSG_NO_CURRENT_DATE =
     [CHR 0xD0, CHR 0x9E, CHR 0xD1, CHR 0x82, CHR 0xD1, CHR 0x81, CHR 0xD1, CHR 0x83,
     CHR 0xD1, CHR 0x82, CHR 0xD1, CHR 0x81, CHR 0xD1, CHR 0x82, CHR 0xD0, CHR 0xB2,
     CHR 0xD1, CHR 0x83, CHR 0xD0, CHR 0xB5, CHR 0xD1, CHR 0x82] @ '' '' @ [CHR 0xD0,
     CHR 0xBF, CHR 0xD0, CHR 0xBE, CHR 0xD0, CHR 0xBB, CHR 0xD0, CHR 0xB5] @
     '' current_date '' @ [CHR 0xD0, CHR 0xB2] @ '' '' @ [CHR 0xD0, CHR 0xBE, CHR 0xD1,
     CHR 0x82, CHR 0xD0, CHR 0xB2, CHR 0xD0, CHR 0xB5, CHR 0xD1, CHR 0x82, CHR 0xD0,
     CHR 0xB5] @ '' API''"

text \<open>Line 75: "the homeworks did not come as a list"\<close>

definition MSG_NOT_LIST :: string where
  "MSG_NOT_LIST =
     [CHR 0xD0, CHR 0x94, CHR 0xD0, CHR 0xBE, CHR 0xD0, CHR 0xBC, CHR 0xD0, CHR 0xB0,
     CHR 0xD1, CHR 0x88, CHR 0xD0, CHR 0xBA, CHR 0xD0, CHR 0xB8] @ '' '' @ [CHR 0xD0,
     CHR 0xBF, CHR 0xD1, CHR 0x80, CHR 0xD0, CHR 0xB8, CHR 0xD1, CHR 0x88, CHR 0xD0,
     CHR 0xBB, CHR 0xD0, CHR 0xB8] @ '' '' @ [CHR 0xD0, CHR 0xBD, CHR 0xD0, CHR 0xB5] @
     '' '' @ [CHR 0xD0, CHR 0xB2] @ '' '' @ [CHR 0xD0, CHR 0xB2, CHR 0xD0, CHR 0xB8,
     CHR 0xD0, CHR 0xB4, CHR 0xD0, CHR 0xB5] @ '' '' @ [CHR 0xD1, CHR 0x81, CHR 0xD0,
     CHR 0xBF, CHR 0xD0, CHR 0xB8, CHR 0xD1, CHR 0x81, CHR 0xD0, CHR 0xBA, CHR 0xD0,
     CHR 0xB0]"

text \<open>Line 81: "field homework_name is missing in the API response"\<close>

definition MSG_NO_HOMEWORK_NAME :: string where
  "MSG_NO_HOMEWORK_NAME =
     [CHR 0xD0, CHR 0x9E, CHR 0xD1, CHR 0x82, CHR 0xD1, CHR 0x81, CHR 0xD1, CHR 0x83,
     CHR 0xD1, CHR 0x82, CHR 0xD1, CHR 0x81, CHR 0xD1, CHR 0x82, CHR 0xD0, CHR 0xB2,
     CHR 0xD1, CHR 0x83, CHR 0xD0, CHR 0xB5, CHR 0xD1, CHR 0x82] @ '' '' @ [CHR 0xD0,
     CHR 0xBF, CHR 0xD0, CHR 0xBE, CHR 0xD0, CHR 0xBB, CHR 0xD0, CHR 0xB5] @
     '' homework_name '' @ [CHR 0xD0, CHR 0xB2] @ '' '' @ [CHR 0xD0, CHR 0xBE, CHR 0xD1,
     CHR 0x82, CHR 0xD0, CHR 0xB2, CHR 0xD0, CHR 0xB5, CHR 0xD1, CHR 0x82, CHR 0xD0,
     CHR 0xB5] @ '' API''"

text \<open>Line 84: "field status is missing in the API response"\<close>

definition MSG_NO_STATUS :: string where
  "MSG_NO_STATUS =
     [CHR 0xD0, CHR 0x9E, CHR 0xD1, CHR 0x82, CHR 0xD1, CHR 0x81, CHR 0xD1, CHR 0x83,
     CHR 0xD1, CHR 0x82, CHR 0xD1, CHR 0x81, CHR 0xD1, CHR 0x82, CHR 0xD0, CHR 0xB2,
     CHR 0xD1, CHR 0x83, CHR 0xD0, CHR 0xB5, CHR 0xD1, CHR 0x82] @ '' '' @ [CHR 0xD0,
     CHR 0xBF, CHR 0xD0, CHR 0xBE, CHR 0xD0, CHR 0xBB, CHR 0xD0, CHR 0xB5] @ '' status '' @
     [CHR 0xD0, CHR 0xB2] @ '' '' @ [CHR 0xD0, CHR 0xBE, CHR 0xD1, CHR 0x82, CHR 0xD0,
     CHR 0xB2, CHR 0xD0, CHR 0xB5, CHR 0xD1, CHR 0x82, CHR 0xD0, CHR 0xB5] @ '' API''"

text \<open>Line 89: "unknown status"\<close>

definition MSG_UNKNOWN_STATUS :: string where
  "MSG_UNKNOWN_STATUS =
     [CHR 0xD0, CHR 0x9D, CHR 0xD0, CHR 0xB5, CHR 0xD0, CHR 0xB8, CHR 0xD0, CHR 0xB7,
     CHR 0xD0, CHR 0xB2, CHR 0xD0, CHR 0xB5, CHR 0xD1, CHR 0x81, CHR 0xD1, CHR 0x82,
     CHR 0xD0, CHR 0xBD, CHR 0xD1, CHR 0x8B, CHR 0xD0, CHR 0xB9] @ '' '' @ [CHR 0xD1,
     CHR 0x81, CHR 0xD1, CHR 0x82, CHR 0xD0, CHR 0xB0, CHR 0xD1, CHR 0x82, CHR 0xD1,
     CHR 0x83, CHR 0xD1, CHR 0x81]"

text \<open>Line 92: the f-string up to the homework name ("the review status of work changed"), opening quote included\<close>

definition MSG_STATUS_CHANGED :: string where
  "MSG_STATUS_CHANGED =
     [CHR 0xD0, CHR 0x98, CHR 0xD0, CHR 0xB7, CHR 0xD0, CHR 0xBC, CHR 0xD0, CHR 0xB5,
     CHR 0xD0, CHR 0xBD, CHR 0xD0, CHR 0xB8, CHR 0xD0, CHR 0xBB, CHR 0xD1, CHR 0x81,
     CHR 0xD1, CHR 0x8F] @ '' '' @ [CHR 0xD1, CHR 0x81, CHR 0xD1, CHR 0x82, CHR 0xD0,
     CHR 0xB0, CHR 0xD1, CHR 0x82, CHR 0xD1, CHR 0x83, CHR 0xD1, CHR 0x81] @ '' '' @
     [CHR 0xD0, CHR 0xBF, CHR 0xD1, CHR 0x80, CHR 0xD0, CHR 0xBE, CHR 0xD0, CHR 0xB2,
     CHR 0xD0, CHR 0xB5, CHR 0xD1, CHR 0x80, CHR 0xD0, CHR 0xBA, CHR 0xD0, CHR 0xB8] @
     '' '' @ [CHR 0xD1, CHR 0x80, CHR 0xD0, CHR 0xB0, CHR 0xD0, CHR 0xB1, CHR 0xD0,
     CHR 0xBE, CHR 0xD1, CHR 0x82, CHR 0xD1, CHR 0x8B] @ '' '' @ [CHR 0x22]"

text \<open>Line 92: the f-string between the homework name and the verdict\<close>

definition MSG_STATUS_SEP :: string where
  "MSG_STATUS_SEP =
     [CHR 0x22] @ ''. ''"

text \<open>Line 103: "one (or more) of the required environment variables is missing"\<close>

definition MSG_NO_TOKENS :: string where
  "MSG_NO_TOKENS =
     [CHR 0xD0, CHR 0x9E, CHR 0xD1, CHR 0x82, CHR 0xD1, CHR 0x81, CHR 0xD1, CHR 0x83,
     CHR 0xD1, CHR 0x82, CHR 0xD1, CHR 0x81, CHR 0xD1, CHR 0x82, CHR 0xD0, CHR 0xB2,
     CHR 0xD1, CHR 0x83, CHR 0xD0, CHR 0xB5, CHR 0xD1, CHR 0x82] @ '' '' @ [CHR 0xD0,
     CHR 0xBE, CHR 0xD0, CHR 0xB4, CHR 0xD0, CHR 0xBD, CHR 0xD0, CHR 0xB0] @ ''('' @
     [CHR 0xD0, CHR 0xB8, CHR 0xD0, CHR 0xBB, CHR 0xD0, CHR 0xB8] @ '' '' @ [CHR 0xD0,
     CHR 0xB1, CHR 0xD0, CHR 0xBE, CHR 0xD0, CHR 0xBB, CHR 0xD0, CHR 0xB5, CHR 0xD0,
     CHR 0xB5] @ '') '' @ [CHR 0xD0, CHR 0xB8, CHR 0xD0, CHR 0xB7] @ '' '' @ [CHR 0xD0,
     CHR 0xBE, CHR 0xD0, CHR 0xB1, CHR 0xD1, CHR 0x8F, CHR 0xD0, CHR 0xB7, CHR 0xD0,
     CHR 0xB0, CHR 0xD1, CHR 0x82, CHR 0xD0, CHR 0xB5, CHR 0xD0, CHR 0xBB, CHR 0xD1,
     CHR 0x8C, CHR 0xD0, CHR 0xBD, CHR 0xD1, CHR 0x8B, CHR 0xD1, CHR 0x85] @ '' '' @
     [CHR 0xD0, CHR 0xBF, CHR 0xD0, CHR 0xB5, CHR 0xD1, CHR 0x80, CHR 0xD0, CHR 0xB5,
     CHR 0xD0, CHR 0xBC, CHR 0xD0, CHR 0xB5, CHR 0xD0, CHR 0xBD, CHR 0xD0, CHR 0xBD,
     CHR 0xD1, CHR 0x8B, CHR 0xD1, CHR 0x85] @ '' '' @ [CHR 0xD0, CHR 0xBE, CHR 0xD0,
     CHR 0xBA, CHR 0xD1, CHR 0x80, CHR 0xD1, CHR 0x83, CHR 0xD0, CHR 0xB6, CHR 0xD0,
     CHR 0xB5, CHR 0xD0, CHR 0xBD, CHR 0xD0, CHR 0xB8, CHR 0xD1, CHR 0x8F]"

text \<open>Line 116: "no new statuses"\<close>

definition MSG_NO_NEW :: string where
  "MSG_NO_NEW =
     [CHR 0xD0, CHR 0x9D, CHR 0xD0, CHR 0xBE, CHR 0xD0, CHR 0xB2, CHR 0xD1, CHR 0x8B,
     CHR 0xD0, CHR 0xB5] @ '' '' @ [CHR 0xD1, CHR 0x81, CHR 0xD1, CHR 0x82, CHR 0xD0,
     CHR 0xB0, CHR 0xD1, CHR 0x82, CHR 0xD1, CHR 0x83, CHR 0xD1, CHR 0x81, CHR 0xD1,
     CHR 0x8B] @ '' '' @ [CHR 0xD0, CHR 0xBE, CHR 0xD1, CHR 0x82, CHR 0xD1, CHR 0x81,
     CHR 0xD1, CHR 0x83, CHR 0xD1, CHR 0x82, CHR 0xD0, CHR 0xB2, CHR 0xD1, CHR 0x83,
     CHR 0xD1, CHR 0x8E, CHR 0xD1, CHR 0x82]"

text \<open>Line 126: "failure in the program: ", followed by the error\<close>

definition MSG_FAILURE :: string where
  "MSG_FAILURE =
     [CHR 0xD0, CHR 0xA1, CHR 0xD0, CHR 0xB1, CHR 0xD0, CHR 0xBE, CHR 0xD0, CHR 0xB9] @
     '' '' @ [CHR 0xD0, CHR 0xB2] @ '' '' @ [CHR 0xD1, CHR 0x80, CHR 0xD0, CHR 0xB0,
     CHR 0xD0, CHR 0xB1, CHR 0xD0, CHR 0xBE, CHR 0xD1, CHR 0x82, CHR 0xD0, CHR 0xB5] @
     '' '' @ [CHR 0xD0, CHR 0xBF, CHR 0xD1, CHR 0x80, CHR 0xD0, CHR 0xBE, CHR 0xD0,
     CHR 0xB3, CHR 0xD1, CHR 0x80, CHR 0xD0, CHR 0xB0, CHR 0xD0, CHR 0xBC, CHR 0xD0,
     CHR 0xBC, CHR 0xD1, CHR 0x8B] @ '': ''"

text \<open>Lines 32-36: the verdict table.\<close>

definition HOMEWORK_VERDICTS :: "(string \<times> string) list" where
  "HOMEWORK_VERDICTS =
     [(''approved'', VERDICT_APPROVED),
      (''reviewing'', VERDICT_REVIEWING),
      (''rejected'', VERDICT_REJECTED)]"

text \<open>A list or a dict cannot be hashed; every other decoded value can.\<close>

fun hashable :: "pyval \<Rightarrow> bool" where
  "hashable (PList xs) = False"
| "hashable (PDict d) = False"
| "hashable v = True"

text \<open>
  \<^verbatim>\<open>status in HOMEWORK_VERDICTS\<close> together with the lookup that follows it: the test hashes
  the value first, and a value that is not one of the three keys is absent.
\<close>

definition verdict_of :: "interpreter \<Rightarrow> pyval \<Rightarrow> exn + string option" where
  "verdict_of py v =
     (if \<not> hashable v then Inl (Exn PyTypeError (wording py (Unhashable v)))
      else case v of
             PStr s \<Rightarrow> Inr (map_of HOMEWORK_VERDICTS s)
           | _ \<Rightarrow> Inr None)"

section \<open>The outside world and the trace\<close>

text \<open>
  One cycle sees one \<open>world\<close>: what \<^verbatim>\<open>requests.get\<close> does when asked with the cursor as
  \<^verbatim>\<open>from_date\<close> (it raises, or returns a response with a status code and the outcome of
  \<^verbatim>\<open>response.json()\<close>), what \<^verbatim>\<open>bot.send_message\<close> does with a text (\<open>None\<close>: it returns), and
  what \<^verbatim>\<open>int(time.time())\<close> reads.
\<close>

datatype http_result =
    Raises exn
  | Response int "exn + pyval"

record world =
  requests_get :: "pyval \<Rightarrow> http_result"
  bot_send_message :: "string \<Rightarrow> exn option"
  time_now :: int

datatype level = DEBUG | INFO | ERROR

text \<open>
  The trace: a logging call with its level and text, a call of \<^verbatim>\<open>bot.send_message\<close> with
  its text and outcome, a call of \<^verbatim>\<open>time.sleep\<close>.
\<close>

datatype event =
    Log level string
  | BotSend string "exn option"
  | Sleep nat

text \<open>The texts that reached the chat: the bot calls that returned.\<close>

fun delivered :: "event list \<Rightarrow> string list" where
  "delivered [] = []"
| "delivered (BotSend message None # evs) = message # delivered evs"
| "delivered (ev # evs) = delivered evs"

text \<open>The texts handed to the bot, whatever became of them.\<close>

fun attempted :: "event list \<Rightarrow> string list" where
  "attempted [] = []"
| "attempted (BotSend message outcome # evs) = message # attempted evs"
| "attempted (ev # evs) = attempted evs"

section \<open>The functions of the module\<close>

text \<open>Lines 39-46. Only a \<^verbatim>\<open>TelegramError\<close> is caught; it is logged at debug level.\<close>

definition send_message :: "world \<Rightarrow> string \<Rightarrow> event list \<times> (exn + unit)" where
  "send_message w message =
     (case bot_send_message w message of
        None \<Rightarrow> ([BotSend message None, Log INFO MSG_SENT], Inr ())
      | Some error \<Rightarrow>
          if is_TelegramError error
          then ([BotSend message (Some error),
                 Log DEBUG (MSG_SEND_FAILED @ exn_str error)], Inr ())
          else ([BotSend message (Some error)], Inl error))"

text \<open>Lines 49-61. A connection error is replaced by a plain \<^verbatim>\<open>Exception\<close>; any other
  exception of the request, and of \<^verbatim>\<open>response.json()\<close>, passes through.\<close>

definition get_api_answer :: "world \<Rightarrow> pyval \<Rightarrow> exn + pyval" where
  "get_api_answer w timestamp =
     (case requests_get w timestamp of
        Raises error \<Rightarrow>
          if is_ConnectionError error then Inl (Exn PyException MSG_ENDPOINT)
          else Inl error
      | Response status_code json \<Rightarrow>
          if status_code \<noteq> 200
          then Inl (Exn PyException (MSG_UNEXPECTED_STATUS @ str_int status_code))
          else json)"

text \<open>Lines 64-75.\<close>

definition check_response :: "pyval \<Rightarrow> exn + pyval list" where
  "check_response response =
     (case response of
        PDict d \<Rightarrow>
          (case map_of d ''homeworks'' of
             None \<Rightarrow> Inl (Exn EmptyKeyError MSG_NO_HOMEWORKS)
           | Some homeworks \<Rightarrow>
               (case map_of d ''current_date'' of
                  None \<Rightarrow> Inl (Exn EmptyKeyError MSG_NO_CURRENT_DATE)
                | Some current_date \<Rightarrow>
                    (case homeworks of
                       PList hs \<Rightarrow> Inr hs
                     | _ \<Rightarrow> Inl (Exn PyTypeError MSG_NOT_LIST))))
      | _ \<Rightarrow> Inl (Exn PyTypeError MSG_NOT_DICT))"

text \<open>Lines 78-92. The two missing-field errors are built-in \<^verbatim>\<open>KeyError\<close>s, whose
  \<^verbatim>\<open>str\<close> is the \<^verbatim>\<open>repr\<close> of the message.\<close>

definition parse_status :: "interpreter \<Rightarrow> pyval \<Rightarrow> exn + string" where
  "parse_status py homework =
     (case py_in py ''homework_name'' homework of
        Inl error \<Rightarrow> Inl error
      | Inr has_name \<Rightarrow>
          if \<not> has_name
          then Inl (Exn PyKeyError (repr py (PStr MSG_NO_HOMEWORK_NAME)))
          else
            (case py_in py ''status'' homework of
               Inl error \<Rightarrow> Inl error
             | Inr has_status \<Rightarrow>
                 if \<not> has_status
                 then Inl (Exn PyKeyError (repr py (PStr MSG_NO_STATUS)))
                 else
                   (case py_getitem py homework ''homework_name'' of
                      Inl error \<Rightarrow> Inl error
                    | Inr homework_name \<Rightarrow>
                        (case py_getitem py homework ''status'' of
                           Inl error \<Rightarrow> Inl error
                         | Inr homework_status \<Rightarrow>
                             (case verdict_of py homework_status of
                                Inl error \<Rightarrow> Inl error
                              | Inr None \<Rightarrow> Inl (Exn PyException MSG_UNKNOWN_STATUS)
                              | Inr (Some verdict) \<Rightarrow>
                                  Inr (MSG_STATUS_CHANGED @ py_str py homework_name
                                       @ MSG_STATUS_SEP @ verdict))))))"

text \<open>Lines 95-97. \<^verbatim>\<open>os.getenv\<close> gives \<^verbatim>\<open>None\<close> or a string; the empty string is falsy.\<close>

record config =
  PRACTICUM_TOKEN :: "string option"
  TELEGRAM_TOKEN :: "string option"
  TELEGRAM_CHAT_ID :: "string option"

fun truthy :: "string option \<Rightarrow> bool" where
  "truthy None = False"
| "truthy (Some s) = (s \<noteq> [])"

definition check_tokens :: "config \<Rightarrow> bool" where
  "check_tokens c =
     list_all truthy [TELEGRAM_TOKEN c, TELEGRAM_CHAT_ID c, PRACTICUM_TOKEN c]"

section \<open>The main loop\<close>

text \<open>
  The two locals of \<^verbatim>\<open>main\<close> that outlive a cycle. \<^verbatim>\<open>error_message\<close> has no assignment before
  the loop, so it starts unbound (\<open>None\<close>); reading it then raises \<^verbatim>\<open>UnboundLocalError\<close>.
\<close>

record state =
  current_timestamp :: pyval
  error_message :: "string option"

text \<open>Lines 110-120: the body of \<^verbatim>\<open>try\<close>. Both assignments are its last statements.\<close>

definition try_block :: "interpreter \<Rightarrow> world \<Rightarrow> state \<Rightarrow> event list \<times> (exn + state)" where
  "try_block py w s =
     (case get_api_answer w (current_timestamp s) of
        Inl error \<Rightarrow> ([], Inl error)
      | Inr response \<Rightarrow>
          (case check_response response of
             Inl error \<Rightarrow> ([], Inl error)
           | Inr homeworks \<Rightarrow>
               (case (case homeworks of
                        homework # rest \<Rightarrow>
                          (case parse_status py homework of
                             Inl error \<Rightarrow> ([], Inl error)
                           | Inr status \<Rightarrow> send_message w status)
                      | [] \<Rightarrow> ([Log DEBUG MSG_NO_NEW], Inr ())) of
                  (evs, Inl error) \<Rightarrow> (evs, Inl error)
                | (evs, Inr u) \<Rightarrow>
                    (case py_get py response ''current_date'' (PInt (time_now w)) of
                       Inl error \<Rightarrow> (evs, Inl error)
                     | Inr date \<Rightarrow>
                         (evs, Inr (s\<lparr>current_timestamp := date,
                                      error_message := Some ''''\<rparr>))))))"

text \<open>
  Lines 122-130: the two \<^verbatim>\<open>except\<close> clauses, tried in this order; \<open>failure_message\<close> is
  the f-string of line 126. The second clause logs,
  reads \<^verbatim>\<open>error_message\<close> and calls the bot itself, outside \<open>send_message\<close>: whatever the comparison
  or the call raises leaves the handler. An exception that is no \<^verbatim>\<open>Exception\<close> is not
  handled at all.
\<close>

definition failure_message :: "exn \<Rightarrow> string" where
  "failure_message error = MSG_FAILURE @ exn_str error"

definition except_block :: "interpreter \<Rightarrow> world \<Rightarrow> state \<Rightarrow> exn \<Rightarrow> event list \<times> (exn + state)" where
  "except_block py w s error =
     (if is_EasyError error then ([Log ERROR (exn_str error)], Inr s)
      else if is_Exception error then
        (let message = failure_message error in
         case error_message s of
           None \<Rightarrow>
             ([Log ERROR message],
              Inl (Exn PyUnboundLocalError (wording py (Unbound ''error_message''))))
         | Some sent \<Rightarrow>
             if message \<noteq> sent then
               (case bot_send_message w message of
                  None \<Rightarrow>
                    ([Log ERROR message, BotSend message None],
                     Inr (s\<lparr>error_message := Some message\<rparr>))
                | Some raised \<Rightarrow>
                    ([Log ERROR message, BotSend message (Some raised)], Inl raised))
             else ([Log ERROR message], Inr s))
      else ([], Inl error))"

text \<open>Lines 110-133: one iteration. \<^verbatim>\<open>finally\<close> sleeps on every path, also before an
  exception leaves the loop. \<open>Inl\<close> is the exception that ends the process.\<close>

definition main_cycle :: "interpreter \<Rightarrow> world \<Rightarrow> state \<Rightarrow> event list \<times> (exn + state)" where
  "main_cycle py w s =
     (case try_block py w s of
        (evs, Inr s') \<Rightarrow> (evs @ [Sleep RETRY_TIME], Inr s')
      | (evs, Inl error) \<Rightarrow>
          (case except_block py w s error of
             (evs', r) \<Rightarrow> (evs @ evs' @ [Sleep RETRY_TIME], r)))"

text \<open>
  \<^verbatim>\<open>while True\<close>, run over the worlds of the cycles observed so far: \<open>Inr s\<close> says the loop
  is still running, in state \<open>s\<close>, after all of them; \<open>Inl\<close> that an exception ended it.
\<close>

fun run :: "interpreter \<Rightarrow> world list \<Rightarrow> state \<Rightarrow> event list \<times> (exn + state)" where
  "run py [] s = ([], Inr s)"
| "run py (w # ws) s =
     (case main_cycle py w s of
        (evs, Inl error) \<Rightarrow> (evs, Inl error)
      | (evs, Inr s') \<Rightarrow> (case run py ws s' of (evs', r) \<Rightarrow> (evs @ evs', r)))"

text \<open>Lines 100-133. \<open>now\<close> is the clock at startup; building the bot client is taken
  to succeed.\<close>

definition main :: "interpreter \<Rightarrow> config \<Rightarrow> int \<Rightarrow> world list \<Rightarrow> event list \<times> (exn + state)" where
  "main py c now ws =
     (if \<not> check_tokens c then ([], Inl (Exn PySystemExit MSG_NO_TOKENS))
      else run py ws \<lparr>current_timestamp = PInt now, error_message = None\<rparr>)"

section \<open>Reading a result\<close>

text \<open>\<open>raises c r\<close>: the call ended with an exception of class \<open>c\<close>.\<close>

fun raises :: "exn_class \<Rightarrow> exn + 'a \<Rightarrow> bool" where
  "raises c (Inl error) = (exn_cls error = c)"
| "raises c (Inr v) = False"

text \<open>
  The number a string of decimal digits denotes, to say what \<open>str_int\<close> prints: \<open>decimal\<close>
  reads the digits from the left, \<open>is_digit\<close> holds of the ten digit characters.
\<close>

definition digit_value :: "char \<Rightarrow> nat" where
  "digit_value c = of_char c - 48"

definition is_digit :: "char \<Rightarrow> bool" where
  "is_digit c = (c \<in> set ''0123456789'')"

definition decimal :: "string \<Rightarrow> nat" where
  "decimal ds = foldl (\<lambda>a c. 10 * a + digit_value c) 0 ds"

section \<open>Concrete inputs\<close>

text \<open>
  An interpreter for the examples, worded as CPython 3.10 words its errors. Its \<open>repr\<close>
  of a string puts it in single quotes, which is what CPython prints for a text without
  quote, backslash or control character; the examples use no other.
\<close>

definition quoted :: "string \<Rightarrow> string" where
  "quoted s = [CHR 0x27] @ s @ [CHR 0x27]"

fun type_name :: "pyval \<Rightarrow> string" where
  "type_name PNone = ''NoneType''"
| "type_name (PBool b) = ''bool''"
| "type_name (PInt i) = ''int''"
| "type_name (PFloat t) = ''float''"
| "type_name (PStr s) = ''str''"
| "type_name (PList xs) = ''list''"
| "type_name (PDict d) = ''dict''"

fun join :: "string \<Rightarrow> string list \<Rightarrow> string" where
  "join sep [] = []"
| "join sep [x] = x"
| "join sep (x # y # ys) = x @ sep @ join sep (y # ys)"

fun cpython_repr :: "pyval \<Rightarrow> string" where
  "cpython_repr PNone = ''None''"
| "cpython_repr (PBool b) = (if b then ''True'' else ''False'')"
| "cpython_repr (PInt i) = str_int i"
| "cpython_repr (PFloat t) = t"
| "cpython_repr (PStr s) = quoted s"
| "cpython_repr (PList xs) = ''['' @ join '', '' (map cpython_repr xs) @ '']''"
| "cpython_repr (PDict d) =
     ''{'' @ join '', '' (map (\<lambda>(k, v). quoted k @ '': '' @ cpython_repr v) d) @ ''}''"

fun cpython_wording :: "fault \<Rightarrow> string" where
  "cpython_wording (NotIterable v) =
     ''argument of type '' @ quoted (type_name v) @ '' is not iterable''"
| "cpython_wording (NotSubscriptable (PList xs)) =
     ''list indices must be integers or slices, not str''"
| "cpython_wording (NotSubscriptable (PStr s)) = ''string indices must be integers''"
| "cpython_wording (NotSubscriptable v) =
     quoted (type_name v) @ '' object is not subscriptable''"
| "cpython_wording (Unhashable v) = ''unhashable type: '' @ quoted (type_name v)"
| "cpython_wording (NoAttribute v a) =
     quoted (type_name v) @ '' object has no attribute '' @ quoted a"
| "cpython_wording (Unbound x) =
     ''local variable '' @ quoted x @ '' referenced before assignment''"

definition cpython :: interpreter where
  "cpython = \<lparr>repr = cpython_repr, wording = cpython_wording\<rparr>"

text \<open>A configuration with all three tokens.\<close>

definition tokens_set :: config where
  "tokens_set =
     \<lparr>PRACTICUM_TOKEN = Some ''y0_token'', TELEGRAM_TOKEN = Some ''42:token'',
      TELEGRAM_CHAT_ID = Some ''1001''\<rparr>"

text \<open>The bot client delivering every text, and failing on every text.\<close>

definition bot_up :: "string \<Rightarrow> exn option" where
  "bot_up message = None"

definition bot_down :: "string \<Rightarrow> exn option" where
  "bot_down message = Some (Exn TelegramError ''Timed out'')"

text \<open>The review API: unreachable, answering 500, and answering 200 with a body.\<close>

definition api_down :: "pyval \<Rightarrow> http_result" where
  "api_down from_date = Raises (Exn RequestsConnectionError ''Connection refused'')"

definition api_500 :: "pyval \<Rightarrow> http_result" where
  "api_500 from_date = Response 500 (Inr (PDict []))"

definition api_ok :: "pyval \<Rightarrow> pyval \<Rightarrow> http_result" where
  "api_ok body from_date = Response 200 (Inr body)"

text \<open>The two example responses of the spec.\<close>

definition homework_hw1 :: pyval where
  "homework_hw1 = PDict [(''homework_name'', PStr ''hw1''), (''status'', PStr ''approved'')]"

definition body_hw1 :: pyval where
  "body_hw1 = PDict [(''homeworks'', PList [homework_hw1]), (''current_date'', PInt 1700000000)]"

definition body_empty :: pyval where
  "body_empty = PDict [(''homeworks'', PList []), (''current_date'', PInt 1700000100)]"

text \<open>A response whose first homework has no name, one without \<^verbatim>\<open>current_date\<close>, and one
  whose \<^verbatim>\<open>current_date\<close> is a string.\<close>

definition body_no_name :: pyval where
  "body_no_name =
     PDict [(''homeworks'', PList [PDict [(''status'', PStr ''approved'')]]),
            (''current_date'', PInt 1700000200)]"

definition body_no_date :: pyval where
  "body_no_date = PDict [(''homeworks'', PList [homework_hw1])]"

definition body_text_date :: pyval where
  "body_text_date = PDict [(''homeworks'', PList []), (''current_date'', PStr ''tomorrow'')]"

text \<open>The same \<^verbatim>\<open>current_date\<close> with the example homework in the list, and with a homework
  that has no name.\<close>

definition body_hw1_text_date :: pyval where
  "body_hw1_text_date =
     PDict [(''homeworks'', PList [homework_hw1]), (''current_date'', PStr ''tomorrow'')]"

definition body_no_name_text_date :: pyval where
  "body_no_name_text_date =
     PDict [(''homeworks'', PList [PDict [(''status'', PStr ''approved'')]]),
            (''current_date'', PStr ''tomorrow'')]"

text \<open>The world of one cycle, from what the API and the bot do in it.\<close>

definition world_of :: "(pyval \<Rightarrow> http_result) \<Rightarrow> (string \<Rightarrow> exn option) \<Rightarrow> world" where
  "world_of api client =
     \<lparr>requests_get = api, bot_send_message = client, time_now = 1700000999\<rparr>"

text \<open>The state \<^verbatim>\<open>main\<close> enters the loop with at time \<open>1699999000\<close>, the state after a
  successful cycle on the empty example response, and that state after the failure of a 500
  answer has been reported.\<close>

definition state_start :: state where
  "state_start = \<lparr>current_timestamp = PInt 1699999000, error_message = None\<rparr>"

definition state_ok :: state where
  "state_ok = \<lparr>current_timestamp = PInt 1700000100, error_message = Some []\<rparr>"

definition state_500 :: state where
  "state_500 =
     \<lparr>current_timestamp = PInt 1700000100,
      error_message = Some (MSG_FAILURE @ MSG_UNEXPECTED_STATUS @ ''500'')\<rparr>"


section \<open>Auxiliary facts\<close>

lemma MSG_FAILURE_nonempty: "MSG_FAILURE \<noteq> []"
  by (simp add: MSG_FAILURE_def)

lemma failure_message_nonempty: "failure_message error \<noteq> []"
  by (simp add: failure_message_def MSG_FAILURE_nonempty)

lemma str_int_500: "str_int 500 = ''500''"
  by (simp add: str_int_def str_nat.simps)

lemma str_int_404: "str_int 404 = ''404''"
  by (simp add: str_int_def str_nat.simps)

lemma delivered_append: "delivered (xs @ ys) = delivered xs @ delivered ys"
  by (induction xs rule: delivered.induct) simp_all

lemma generic_PyException:
  "is_Exception (Exn PyException m) \<and> \<not> is_EasyError (Exn PyException m)"
  by (simp add: is_Exception_def is_EasyError_def)

lemma repr_cpython: "repr cpython = cpython_repr" "wording cpython = cpython_wording"
  by (simp_all add: cpython_def)

lemma world_of_sel:
  "requests_get (world_of api client) = api"
  "bot_send_message (world_of api client) = client"
  "time_now (world_of api client) = 1700000999"
  by (simp_all add: world_of_def)

subsection \<open>What \<open>str_int\<close> prints\<close>

text \<open>\<open>str_nat\<close> prints the decimal numeral of its argument: digits only, no leading
  zero, and read back they give the number.\<close>

lemma digit_nth:
  assumes "k < 10"
  shows "is_digit (''0123456789'' ! k) \<and> digit_value (''0123456789'' ! k) = k"
proof -
  from assms have "k = 0 \<or> k = 1 \<or> k = 2 \<or> k = 3 \<or> k = 4 \<or> k = 5 \<or> k = 6 \<or> k = 7
      \<or> k = 8 \<or> k = 9"
    by arith
  then show ?thesis
    by (elim disjE) (simp_all add: is_digit_def digit_value_def)
qed

lemma decimal_snoc: "decimal (ds @ [c]) = 10 * decimal ds + digit_value c"
  by (simp add: decimal_def)

lemma decimal_single: "decimal [c] = digit_value c"
  by (simp add: decimal_def)

lemma str_nat_nonempty: "str_nat n \<noteq> []"
  by (subst str_nat.simps) simp

lemma decimal_str_nat: "decimal (str_nat n) = n"
proof (induction n rule: str_nat.induct)
  case (1 n)
  show ?case
  proof (cases "n < 10")
    case True
    then show ?thesis
      by (subst str_nat.simps) (simp add: decimal_single digit_nth)
  next
    case False
    then have "decimal (str_nat (n div 10)) = n div 10"
      using "1.IH" by simp
    with False show ?thesis
      by (subst str_nat.simps) (simp add: decimal_snoc digit_nth)
  qed
qed

lemma str_nat_digits: "list_all is_digit (str_nat n)"
proof (induction n rule: str_nat.induct)
  case (1 n)
  show ?case
  proof (cases "n < 10")
    case True
    then show ?thesis
      by (subst str_nat.simps) (simp add: digit_nth)
  next
    case False
    then have "list_all is_digit (str_nat (n div 10))"
      using "1.IH" by simp
    with False show ?thesis
      by (subst str_nat.simps) (simp add: digit_nth)
  qed
qed

lemma str_nat_no_leading_zero: "n \<noteq> 0 \<Longrightarrow> hd (str_nat n) \<noteq> CHR ''0''"
proof (induction n rule: str_nat.induct)
  case (1 n)
  show ?case
  proof (cases "n < 10")
    case True
    have "digit_value (''0123456789'' ! n) = n"
      using True by (simp add: digit_nth)
    moreover have "digit_value CHR ''0'' = 0"
      by (simp add: digit_value_def)
    ultimately have "''0123456789'' ! n \<noteq> CHR ''0''"
      using "1.prems" by metis
    with True show ?thesis
      by (subst str_nat.simps) simp
  next
    case False
    then have "n div 10 \<noteq> 0"
      by simp
    with False have "hd (str_nat (n div 10)) \<noteq> CHR ''0''"
      using "1.IH" by simp
    with False show ?thesis
      by (subst str_nat.simps) (simp add: str_nat_nonempty)
  qed
qed

lemma str_int_decimal:
  assumes "0 \<le> i"
  shows "str_int i \<noteq> [] \<and> list_all is_digit (str_int i) \<and> int (decimal (str_int i)) = i
         \<and> (i \<noteq> 0 \<longrightarrow> hd (str_int i) \<noteq> CHR ''0'')"
  using assms
  by (simp add: str_int_def str_nat_nonempty str_nat_digits decimal_str_nat
        str_nat_no_leading_zero)

lemma str_int_negative: "i < 0 \<Longrightarrow> str_int i = ''-'' @ str_int (- i)"
  by (simp add: str_int_def)

subsection \<open>The functions\<close>

lemma type_messages_differ: "MSG_NOT_DICT \<noteq> MSG_NOT_LIST"
  by (simp add: MSG_NOT_DICT_def MSG_NOT_LIST_def)

lemma check_response_Inr:
  "check_response response = Inr hs \<longleftrightarrow>
     (\<exists>d. response = PDict d \<and> map_of d ''homeworks'' = Some (PList hs)
          \<and> map_of d ''current_date'' \<noteq> None)"
  by (auto simp: check_response_def split: pyval.splits option.splits)

lemma parse_status_no_name:
  "map_of d ''homework_name'' = None \<Longrightarrow>
   parse_status py (PDict d) = Inl (Exn PyKeyError (repr py (PStr MSG_NO_HOMEWORK_NAME)))"
  by (simp add: parse_status_def)

lemma parse_status_no_status:
  "map_of d ''homework_name'' = Some name \<Longrightarrow> map_of d ''status'' = None \<Longrightarrow>
   parse_status py (PDict d) = Inl (Exn PyKeyError (repr py (PStr MSG_NO_STATUS)))"
  by (simp add: parse_status_def)

lemma parse_status_hw1:
  "parse_status py homework_hw1 =
     Inr (MSG_STATUS_CHANGED @ ''hw1'' @ MSG_STATUS_SEP @ VERDICT_APPROVED)"
  by (simp add: parse_status_def homework_hw1_def verdict_of_def HOMEWORK_VERDICTS_def)

lemma get_api_answer_ok:
  "get_api_answer (world_of (api_ok body) client) t = Inr body"
  by (simp add: get_api_answer_def world_of_sel api_ok_def)

lemma send_message_caught:
  "bot_send_message w message = None
     \<or> (\<exists>raised. bot_send_message w message = Some raised \<and> is_TelegramError raised) \<Longrightarrow>
   \<exists>evs. send_message w message = (evs, Inr ())"
  by (auto simp: send_message_def)

lemma send_message_delivered:
  "send_message w message = (evs, Inl error) \<Longrightarrow> delivered evs = []"
  by (auto simp: send_message_def split: option.splits if_splits)

subsection \<open>The body of \<^verbatim>\<open>try\<close>\<close>

text \<open>A failed body has delivered nothing; a completed one has read a well-formed
  response, and its state is the old one with both locals assigned.\<close>

lemma try_block_Inl_delivered:
  "try_block py w s = (evs, Inl error) \<Longrightarrow> delivered evs = []"
  by (auto simp: try_block_def check_response_Inr dest: send_message_delivered
        split: sum.splits list.splits prod.splits)

lemma try_block_Inr:
  assumes "try_block py w s = (evs, Inr s')"
  shows "\<exists>d hs date. get_api_answer w (current_timestamp s) = Inr (PDict d)
           \<and> map_of d ''homeworks'' = Some (PList hs)
           \<and> map_of d ''current_date'' = Some date
           \<and> s' = s\<lparr>current_timestamp := date, error_message := Some []\<rparr>"
  using assms
  by (auto simp: try_block_def check_response_Inr
        split: sum.splits list.splits prod.splits option.splits)

lemma try_block_500:
  "try_block py (world_of api_500 client) s =
     ([], Inl (Exn PyException (MSG_UNEXPECTED_STATUS @ ''500'')))"
  by (simp add: try_block_def get_api_answer_def world_of_sel api_500_def str_int_500)

lemma try_block_down:
  "try_block py (world_of api_down client) s = ([], Inl (Exn PyException MSG_ENDPOINT))"
  by (simp add: try_block_def get_api_answer_def world_of_sel api_down_def
        is_ConnectionError_def)

lemma try_block_empty:
  "try_block py (world_of (api_ok body_empty) client) s =
     ([Log DEBUG MSG_NO_NEW],
      Inr (s\<lparr>current_timestamp := PInt 1700000100, error_message := Some []\<rparr>))"
  by (simp add: try_block_def get_api_answer_def world_of_sel api_ok_def body_empty_def
        check_response_def)

lemma try_block_hw1:
  "try_block py (world_of (api_ok body_hw1) client) s =
     (case send_message (world_of (api_ok body_hw1) client)
             (MSG_STATUS_CHANGED @ ''hw1'' @ MSG_STATUS_SEP @ VERDICT_APPROVED) of
        (evs, Inl error) \<Rightarrow> (evs, Inl error)
      | (evs, Inr u) \<Rightarrow>
          (evs, Inr (s\<lparr>current_timestamp := PInt 1700000000, error_message := Some []\<rparr>)))"
  by (simp add: try_block_def get_api_answer_def world_of_sel api_ok_def body_hw1_def
        check_response_def parse_status_hw1 split: prod.splits sum.splits)

lemma try_block_no_name:
  "try_block py (world_of (api_ok body_no_name) client) s =
     ([], Inl (Exn PyKeyError (repr py (PStr MSG_NO_HOMEWORK_NAME))))"
  by (simp add: try_block_def get_api_answer_def world_of_sel api_ok_def body_no_name_def
        check_response_def parse_status_no_name)

subsection \<open>One iteration, by the path it takes\<close>

lemma main_cycle_success:
  "try_block py w s = (evs, Inr s') \<Longrightarrow>
   main_cycle py w s = (evs @ [Sleep RETRY_TIME], Inr s')"
  by (simp add: main_cycle_def)

lemma main_cycle_easy:
  "try_block py w s = (evs, Inl error) \<Longrightarrow> is_EasyError error \<Longrightarrow>
   main_cycle py w s = (evs @ [Log ERROR (exn_str error), Sleep RETRY_TIME], Inr s)"
  by (simp add: main_cycle_def except_block_def)

lemma main_cycle_unbound:
  "try_block py w s = (evs, Inl error) \<Longrightarrow> is_Exception error \<Longrightarrow> \<not> is_EasyError error \<Longrightarrow>
   error_message s = None \<Longrightarrow>
   main_cycle py w s =
     (evs @ [Log ERROR (failure_message error), Sleep RETRY_TIME],
      Inl (Exn PyUnboundLocalError (wording py (Unbound ''error_message''))))"
  by (simp add: main_cycle_def except_block_def Let_def)

lemma main_cycle_repeated:
  "try_block py w s = (evs, Inl error) \<Longrightarrow> is_Exception error \<Longrightarrow> \<not> is_EasyError error \<Longrightarrow>
   error_message s = Some (failure_message error) \<Longrightarrow>
   main_cycle py w s = (evs @ [Log ERROR (failure_message error), Sleep RETRY_TIME], Inr s)"
  by (simp add: main_cycle_def except_block_def Let_def)

lemma main_cycle_notified:
  "try_block py w s = (evs, Inl error) \<Longrightarrow> is_Exception error \<Longrightarrow> \<not> is_EasyError error \<Longrightarrow>
   error_message s = Some sent \<Longrightarrow> failure_message error \<noteq> sent \<Longrightarrow>
   bot_send_message w (failure_message error) = None \<Longrightarrow>
   main_cycle py w s =
     (evs @ [Log ERROR (failure_message error), BotSend (failure_message error) None,
             Sleep RETRY_TIME],
      Inr (s\<lparr>error_message := Some (failure_message error)\<rparr>))"
  by (simp add: main_cycle_def except_block_def Let_def)

lemma main_cycle_send_raises:
  "try_block py w s = (evs, Inl error) \<Longrightarrow> is_Exception error \<Longrightarrow> \<not> is_EasyError error \<Longrightarrow>
   error_message s = Some sent \<Longrightarrow> failure_message error \<noteq> sent \<Longrightarrow>
   bot_send_message w (failure_message error) = Some raised \<Longrightarrow>
   main_cycle py w s =
     (evs @ [Log ERROR (failure_message error),
             BotSend (failure_message error) (Some raised), Sleep RETRY_TIME],
      Inl raised)"
  by (simp add: main_cycle_def except_block_def Let_def)

lemma messages_differ:
  "failure_message (Exn PyException MSG_ENDPOINT)
     \<noteq> failure_message (Exn PyException (MSG_UNEXPECTED_STATUS @ ''500''))"
  by (simp add: failure_message_def MSG_ENDPOINT_def MSG_UNEXPECTED_STATUS_def)

section \<open>The request, the validation and the status message\<close>

text \<open>
  Claim C9. \<open>get_api_answer\<close> replaces a connection error of the request by a plain
  \<^verbatim>\<open>Exception\<close>. A response whose status code is not 200 raises a plain \<^verbatim>\<open>Exception\<close> whose
  text is \<open>MSG_UNEXPECTED_STATUS\<close> followed by the status code as Python prints it: for a
  code that is not negative its decimal numeral (digits only, no leading zero, reading back as
  the code), for a negative one a minus sign and the numeral of its absolute value. A 200
  response gives back the decoded body. A plain \<^verbatim>\<open>Exception\<close> is a failure the second
  \<^verbatim>\<open>except\<close> clause of the loop takes.
\<close>

theorem get_api_answer_cases:
  "(requests_get w t = Raises error \<and> is_ConnectionError error \<longrightarrow>
      get_api_answer w t = Inl (Exn PyException MSG_ENDPOINT))
   \<and> (requests_get w t = Response code body \<and> code \<noteq> 200 \<longrightarrow>
      get_api_answer w t = Inl (Exn PyException (MSG_UNEXPECTED_STATUS @ str_int code)))
   \<and> (0 \<le> code \<longrightarrow>
      str_int code \<noteq> [] \<and> list_all is_digit (str_int code)
      \<and> int (decimal (str_int code)) = code
      \<and> (code \<noteq> 0 \<longrightarrow> hd (str_int code) \<noteq> CHR ''0''))
   \<and> (code < 0 \<longrightarrow> str_int code = ''-'' @ str_int (- code))
   \<and> (requests_get w t = Response 200 (Inr v) \<longrightarrow> get_api_answer w t = Inr v)
   \<and> (\<forall>e. get_api_answer w t = Inl e \<and> exn_cls e = PyException \<longrightarrow>
         is_Exception e \<and> \<not> is_EasyError e)"
proof (intro conjI impI allI)
  assume "requests_get w t = Raises error \<and> is_ConnectionError error"
  then show "get_api_answer w t = Inl (Exn PyException MSG_ENDPOINT)"
    by (simp add: get_api_answer_def)
next
  assume "requests_get w t = Response code body \<and> code \<noteq> 200"
  then show "get_api_answer w t
      = Inl (Exn PyException (MSG_UNEXPECTED_STATUS @ str_int code))"
    by (simp add: get_api_answer_def)
next
  assume nonneg: "0 \<le> code"
  from str_int_decimal [OF nonneg]
  show "str_int code \<noteq> []" and "list_all is_digit (str_int code)"
    and "int (decimal (str_int code)) = code"
    by simp_all
  assume "code \<noteq> 0"
  with str_int_decimal [OF nonneg] show "hd (str_int code) \<noteq> CHR ''0''"
    by simp
next
  assume "code < 0"
  then show "str_int code = ''-'' @ str_int (- code)"
    by (rule str_int_negative)
next
  assume "requests_get w t = Response 200 (Inr v)"
  then show "get_api_answer w t = Inr v"
    by (simp add: get_api_answer_def)
next
  fix e
  assume "get_api_answer w t = Inl e \<and> exn_cls e = PyException"
  then show "is_Exception e" and "\<not> is_EasyError e"
    by (simp_all add: is_Exception_def is_EasyError_def)
qed

text \<open>The cases at work: the API unreachable, answering 500 and 404 (the texts end in
  \<open>500\<close> and \<open>404\<close>), and answering 200 with the empty example response.\<close>

theorem get_api_answer_cases_witness:
  "get_api_answer (world_of api_down bot_up) (PInt 0) = Inl (Exn PyException MSG_ENDPOINT)
   \<and> get_api_answer (world_of api_500 bot_up) (PInt 0)
       = Inl (Exn PyException (MSG_UNEXPECTED_STATUS @ ''500''))
   \<and> get_api_answer (world_of (\<lambda>from_date. Response 404 (Inr PNone)) bot_up) (PInt 0)
       = Inl (Exn PyException (MSG_UNEXPECTED_STATUS @ ''404''))
   \<and> decimal ''500'' = 500 \<and> decimal (str_int 404) = 404
   \<and> get_api_answer (world_of (api_ok body_empty) bot_up) (PInt 0) = Inr body_empty"
  using get_api_answer_cases [of "world_of api_down bot_up" "PInt 0"
          "Exn RequestsConnectionError ''Connection refused''" 500]
        get_api_answer_cases [of "world_of api_500 bot_up" "PInt 0" _ 500 "Inr (PDict [])"]
        get_api_answer_cases [of "world_of (\<lambda>from_date. Response 404 (Inr PNone)) bot_up"
          "PInt 0" _ 404 "Inr PNone"]
        get_api_answer_cases [of "world_of (api_ok body_empty) bot_up" "PInt 0" _ 500 _
          body_empty]
  by (simp add: world_of_sel api_down_def api_500_def api_ok_def is_ConnectionError_def
        str_int_500 str_int_404)

text \<open>
  Claim C4. \<open>check_response\<close> raises the \<^verbatim>\<open>TypeError\<close> of line 67 exactly when the response
  is not a dict; it raises the missing-field error exactly when the response is a dict
  lacking \<^verbatim>\<open>homeworks\<close> or lacking \<^verbatim>\<open>current_date\<close>; it raises the \<^verbatim>\<open>TypeError\<close> of line 75
  exactly when the response is a dict holding both keys whose \<^verbatim>\<open>homeworks\<close> is not a list;
  it returns a list exactly when the response is a dict holding \<^verbatim>\<open>current_date\<close> and that
  very list under \<^verbatim>\<open>homeworks\<close>; and one of the four always happens.
\<close>

theorem check_response_cases:
  "(check_response response = Inl (Exn PyTypeError MSG_NOT_DICT) \<longleftrightarrow>
      (\<forall>d. response \<noteq> PDict d))
   \<and> (raises EmptyKeyError (check_response response) \<longleftrightarrow>
      (\<exists>d. response = PDict d
         \<and> (map_of d ''homeworks'' = None \<or> map_of d ''current_date'' = None)))
   \<and> (check_response response = Inl (Exn PyTypeError MSG_NOT_LIST) \<longleftrightarrow>
      (\<exists>d h. response = PDict d \<and> map_of d ''homeworks'' = Some h
         \<and> map_of d ''current_date'' \<noteq> None \<and> (\<forall>hs. h \<noteq> PList hs)))
   \<and> (\<forall>hs. check_response response = Inr hs \<longleftrightarrow>
      (\<exists>d. response = PDict d \<and> map_of d ''homeworks'' = Some (PList hs)
         \<and> map_of d ''current_date'' \<noteq> None))
   \<and> (check_response response = Inl (Exn PyTypeError MSG_NOT_DICT)
        \<or> raises EmptyKeyError (check_response response)
        \<or> check_response response = Inl (Exn PyTypeError MSG_NOT_LIST)
        \<or> (\<exists>hs. check_response response = Inr hs))"
  using type_messages_differ
  by (auto simp: check_response_def split: pyval.splits option.splits)

text \<open>A list as response, a response without \<^verbatim>\<open>current_date\<close>, one without
  \<^verbatim>\<open>homeworks\<close>, one whose \<^verbatim>\<open>homeworks\<close> is a string, and the example response.\<close>

theorem check_response_cases_witness:
  "check_response (PList []) = Inl (Exn PyTypeError MSG_NOT_DICT)
   \<and> raises EmptyKeyError (check_response body_no_date)
   \<and> raises EmptyKeyError (check_response (PDict [(''current_date'', PInt 1)]))
   \<and> check_response (PDict [(''homeworks'', PStr ''hw1''), (''current_date'', PInt 1)])
       = Inl (Exn PyTypeError MSG_NOT_LIST)
   \<and> check_response body_hw1 = Inr [homework_hw1]"
  using check_response_cases [of "PList []"]
        check_response_cases [of body_no_date]
        check_response_cases [of "PDict [(''current_date'', PInt 1)]"]
        check_response_cases
          [of "PDict [(''homeworks'', PStr ''hw1''), (''current_date'', PInt 1)]"]
        check_response_cases [of body_hw1]
  by (simp add: body_no_date_def body_hw1_def)

text \<open>
  Claim C3, as stated, fails for a status that cannot be looked up: with a list as status,
  which is not in the table, the membership test itself raises a \<^verbatim>\<open>TypeError\<close>, not the error
  of an unknown status. And a record with the unknown status \<^verbatim>\<open>done\<close> but no name raises the
  \<^verbatim>\<open>KeyError\<close> of the missing name.
\<close>

theorem unhashable_status_counterexample:
  "map_of HOMEWORK_VERDICTS ''done'' = None
   \<and> parse_status cpython (PDict [(''homework_name'', PStr ''hw1''), (''status'', PList [])])
       = Inl (Exn PyTypeError (''unhashable type: '' @ quoted ''list''))
   \<and> parse_status cpython (PDict [(''homework_name'', PStr ''hw1''), (''status'', PList [])])
       \<noteq> Inl (Exn PyException MSG_UNKNOWN_STATUS)
   \<and> parse_status cpython (PDict [(''status'', PStr ''done'')])
       = Inl (Exn PyKeyError (quoted MSG_NO_HOMEWORK_NAME))"
  by (simp add: parse_status_def verdict_of_def repr_cpython HOMEWORK_VERDICTS_def)

text \<open>
  Claim C3, amended. For a homework record holding \<^verbatim>\<open>homework_name\<close> and \<^verbatim>\<open>status\<close>: when the
  status is a key of the verdict table, \<open>parse_status\<close> returns the f-string of line 92, that
  is \<open>MSG_STATUS_CHANGED\<close>, the homework name (itself when it is a string, its \<^verbatim>\<open>repr\<close>
  otherwise), \<open>MSG_STATUS_SEP\<close> and the verdict the table gives for the status, spelled out
  for each of the three keys; when the status is a hashable value other than the three keys,
  \<open>parse_status\<close> raises the plain \<^verbatim>\<open>Exception\<close> of an unknown status; when the status is a
  list or a dict, it raises the \<^verbatim>\<open>TypeError\<close> of an unhashable value.
\<close>

theorem parse_status_record:
  assumes "map_of d ''homework_name'' = Some name"
      and "map_of d ''status'' = Some status"
  shows "(\<forall>s verdict. status = PStr s \<and> map_of HOMEWORK_VERDICTS s = Some verdict \<longrightarrow>
            parse_status py (PDict d)
              = Inr (MSG_STATUS_CHANGED @ (case name of PStr n \<Rightarrow> n | _ \<Rightarrow> repr py name)
                     @ MSG_STATUS_SEP @ verdict))
       \<and> (status = PStr ''approved'' \<longrightarrow>
            parse_status py (PDict d)
              = Inr (MSG_STATUS_CHANGED @ (case name of PStr n \<Rightarrow> n | _ \<Rightarrow> repr py name)
                     @ MSG_STATUS_SEP @ VERDICT_APPROVED))
       \<and> (status = PStr ''reviewing'' \<longrightarrow>
            parse_status py (PDict d)
              = Inr (MSG_STATUS_CHANGED @ (case name of PStr n \<Rightarrow> n | _ \<Rightarrow> repr py name)
                     @ MSG_STATUS_SEP @ VERDICT_REVIEWING))
       \<and> (status = PStr ''rejected'' \<longrightarrow>
            parse_status py (PDict d)
              = Inr (MSG_STATUS_CHANGED @ (case name of PStr n \<Rightarrow> n | _ \<Rightarrow> repr py name)
                     @ MSG_STATUS_SEP @ VERDICT_REJECTED))
       \<and> (hashable status
            \<and> status \<notin> {PStr ''approved'', PStr ''reviewing'', PStr ''rejected''} \<longrightarrow>
            parse_status py (PDict d) = Inl (Exn PyException MSG_UNKNOWN_STATUS))
       \<and> (\<not> hashable status \<longrightarrow>
            parse_status py (PDict d)
              = Inl (Exn PyTypeError (wording py (Unhashable status))))"
proof -
  have keys: "map_of HOMEWORK_VERDICTS s = None"
    if "s \<noteq> ''approved''" "s \<noteq> ''reviewing''" "s \<noteq> ''rejected''" for s
    using that by (simp add: HOMEWORK_VERDICTS_def)
  have name: "py_str py name = (case name of PStr n \<Rightarrow> n | _ \<Rightarrow> repr py name)"
    by (cases name) simp_all
  show ?thesis
    using assms name keys
    by (cases status)
       (auto simp: parse_status_def verdict_of_def HOMEWORK_VERDICTS_def)
qed

text \<open>The example of the spec, \<^verbatim>\<open>approved\<close> on \<^verbatim>\<open>hw1\<close>; another name with \<^verbatim>\<open>rejected\<close>;
  a string and \<^verbatim>\<open>None\<close> as status outside the table.\<close>

theorem parse_status_record_witness:
  "parse_status cpython homework_hw1
     = Inr (MSG_STATUS_CHANGED @ ''hw1'' @ MSG_STATUS_SEP @ VERDICT_APPROVED)
   \<and> parse_status cpython
        (PDict [(''homework_name'', PStr ''Final task''), (''status'', PStr ''rejected'')])
     = Inr (MSG_STATUS_CHANGED @ ''Final task'' @ MSG_STATUS_SEP @ VERDICT_REJECTED)
   \<and> parse_status cpython (PDict [(''homework_name'', PStr ''hw1''), (''status'', PStr ''done'')])
     = Inl (Exn PyException MSG_UNKNOWN_STATUS)
   \<and> parse_status cpython (PDict [(''homework_name'', PStr ''hw1''), (''status'', PNone)])
     = Inl (Exn PyException MSG_UNKNOWN_STATUS)"
  using parse_status_record
          [of "[(''homework_name'', PStr ''hw1''), (''status'', PStr ''approved'')]"
              "PStr ''hw1''" "PStr ''approved''" cpython]
        parse_status_record
          [of "[(''homework_name'', PStr ''Final task''), (''status'', PStr ''rejected'')]"
              "PStr ''Final task''" "PStr ''rejected''" cpython]
        parse_status_record
          [of "[(''homework_name'', PStr ''hw1''), (''status'', PStr ''done'')]"
              "PStr ''hw1''" "PStr ''done''" cpython]
        parse_status_record
          [of "[(''homework_name'', PStr ''hw1''), (''status'', PNone)]"
              "PStr ''hw1''" PNone cpython]
  by (simp add: homework_hw1_def)

section \<open>The cursor\<close>

text \<open>
  Claim C7. \<^verbatim>\<open>main\<close> enters the loop with the clock reading of startup as cursor; a cycle
  whose \<^verbatim>\<open>try\<close> body completes sets the cursor to the \<^verbatim>\<open>current_date\<close> of the response, or
  to the clock reading were the key absent; a cycle whose body fails and which the loop
  survives leaves the cursor as it was.
\<close>

theorem cursor_updates:
  "(check_tokens c \<longrightarrow>
      main py c now ws = run py ws \<lparr>current_timestamp = PInt now, error_message = None\<rparr>)
   \<and> (try_block py w s = (evs, Inr s') \<longrightarrow>
        snd (main_cycle py w s) = Inr s'
        \<and> (\<exists>d. get_api_answer w (current_timestamp s) = Inr (PDict d)
             \<and> current_timestamp s'
                 = (case map_of d ''current_date'' of
                      Some date \<Rightarrow> date
                    | None \<Rightarrow> PInt (time_now w))))
   \<and> (try_block py w s = (evs, Inl error) \<and> main_cycle py w s = (out, Inr s') \<longrightarrow>
        current_timestamp s' = current_timestamp s)"
proof (intro conjI impI)
  assume "check_tokens c"
  then show "main py c now ws = run py ws \<lparr>current_timestamp = PInt now, error_message = None\<rparr>"
    by (simp add: main_def)
next
  assume ok: "try_block py w s = (evs, Inr s')"
  then show "snd (main_cycle py w s) = Inr s'"
    by (simp add: main_cycle_success)
  from try_block_Inr [OF ok]
  show "\<exists>d. get_api_answer w (current_timestamp s) = Inr (PDict d)
          \<and> current_timestamp s'
              = (case map_of d ''current_date'' of
                   Some date \<Rightarrow> date
                 | None \<Rightarrow> PInt (time_now w))"
    by auto
next
  assume "try_block py w s = (evs, Inl error) \<and> main_cycle py w s = (out, Inr s')"
  then show "current_timestamp s' = current_timestamp s"
    by (auto simp: main_cycle_def except_block_def Let_def
          split: if_splits option.splits)
qed

text \<open>Startup at \<open>1699999000\<close>; the example response moves the cursor to \<open>1700000000\<close>;
  a 500 answer after a successful cycle is reported and leaves the cursor at
  \<open>1700000100\<close>.\<close>

theorem cursor_updates_witness:
  "main cpython tokens_set 1699999000 [] = ([], Inr state_start)
   \<and> snd (main_cycle cpython (world_of (api_ok body_hw1) bot_up) state_start)
       = Inr \<lparr>current_timestamp = PInt 1700000000, error_message = Some []\<rparr>
   \<and> snd (main_cycle cpython (world_of api_500 bot_up) state_ok)
       = Inr \<lparr>current_timestamp = PInt 1700000100,
              error_message = Some (MSG_FAILURE @ MSG_UNEXPECTED_STATUS @ ''500'')\<rparr>"
  using cursor_updates [of tokens_set cpython 1699999000 "[]"
          "world_of (api_ok body_hw1) bot_up" state_start
          "[BotSend (MSG_STATUS_CHANGED @ ''hw1'' @ MSG_STATUS_SEP @ VERDICT_APPROVED) None,
            Log INFO MSG_SENT]"
          "\<lparr>current_timestamp = PInt 1700000000, error_message = Some []\<rparr>"]
        cursor_updates [of tokens_set cpython 1699999000 "[]"
          "world_of api_500 bot_up" state_ok "[]"
          "\<lparr>current_timestamp = PInt 1700000100,
            error_message = Some (MSG_FAILURE @ MSG_UNEXPECTED_STATUS @ ''500'')\<rparr>"
          "Exn PyException (MSG_UNEXPECTED_STATUS @ ''500'')"
          "[Log ERROR (MSG_FAILURE @ MSG_UNEXPECTED_STATUS @ ''500''),
            BotSend (MSG_FAILURE @ MSG_UNEXPECTED_STATUS @ ''500'') None, Sleep 600]"]
  by (simp add: check_tokens_def tokens_set_def state_start_def state_ok_def try_block_hw1
        try_block_500 send_message_def world_of_sel bot_up_def main_cycle_def
        except_block_def Let_def generic_PyException failure_message_def
        MSG_FAILURE_nonempty RETRY_TIME_def)

text \<open>
  Claim C10, as stated, fails when the first homework of the list does not parse: a
  response whose \<^verbatim>\<open>current_date\<close> is the string \<^verbatim>\<open>tomorrow\<close> and whose first homework has no
  name passes \<open>check_response\<close>, the cycle fails in \<open>parse_status\<close>, and the cursor stays
  what it was.
\<close>

theorem unparsed_homework_counterexample:
  "check_response body_no_name_text_date = Inr [PDict [(''status'', PStr ''approved'')]]
   \<and> get_api_answer (world_of (api_ok body_no_name_text_date) bot_up) (current_timestamp state_ok)
       = Inr body_no_name_text_date
   \<and> snd (main_cycle cpython (world_of (api_ok body_no_name_text_date) bot_up) state_ok)
       = Inr \<lparr>current_timestamp = PInt 1700000100,
              error_message = Some (MSG_FAILURE @ quoted MSG_NO_HOMEWORK_NAME)\<rparr>"
  by (simp add: main_cycle_def try_block_def get_api_answer_def api_ok_def
        body_no_name_text_date_def check_response_def parse_status_no_name except_block_def
        Let_def is_Exception_def is_EasyError_def failure_message_def MSG_FAILURE_nonempty
        world_of_sel bot_up_def state_ok_def repr_cpython)

text \<open>
  Claim C10, amended. Validation asks only whether \<^verbatim>\<open>current_date\<close> is there: a dict
  whose \<^verbatim>\<open>homeworks\<close> is a list and whose \<^verbatim>\<open>current_date\<close> is any value at all passes
  \<open>check_response\<close>. That value becomes the cursor, as it is, in every cycle whose \<^verbatim>\<open>try\<close> body
  completes: when the list is empty, and when its first homework parses and the bot takes
  the text or raises a \<^verbatim>\<open>TelegramError\<close>. A cycle whose body fails and which the loop
  survives keeps the old cursor.
\<close>

theorem current_date_unexamined:
  assumes "get_api_answer w (current_timestamp s) = Inr (PDict d)"
      and "map_of d ''homeworks'' = Some (PList hs)"
      and "map_of d ''current_date'' = Some date"
  shows "check_response (PDict d) = Inr hs
       \<and> (hs = [] \<longrightarrow>
             main_cycle py w s
               = ([Log DEBUG MSG_NO_NEW, Sleep RETRY_TIME],
                  Inr \<lparr>current_timestamp = date, error_message = Some []\<rparr>))
       \<and> (\<forall>homework rest status.
             hs = homework # rest \<and> parse_status py homework = Inr status
             \<and> (bot_send_message w status = None
                \<or> (\<exists>raised. bot_send_message w status = Some raised
                      \<and> is_TelegramError raised)) \<longrightarrow>
             snd (main_cycle py w s)
               = Inr \<lparr>current_timestamp = date, error_message = Some []\<rparr>)
       \<and> (\<forall>evs s'. try_block py w s = (evs, Inr s') \<longrightarrow>
             s' = \<lparr>current_timestamp = date, error_message = Some []\<rparr>)
       \<and> (\<forall>evs error out s'. try_block py w s = (evs, Inl error)
             \<and> main_cycle py w s = (out, Inr s') \<longrightarrow>
             current_timestamp s' = current_timestamp s)"
proof -
  have c: "check_response (PDict d) = Inr hs"
    using assms(2,3) by (simp add: check_response_def)
  have t: "s' = \<lparr>current_timestamp = date, error_message = Some []\<rparr>"
    if "try_block py w s = (evs, Inr s')" for evs s'
    using try_block_Inr [OF that] assms(1,3) by auto
  have e: "try_block py w s
             = ([Log DEBUG MSG_NO_NEW],
                Inr (s\<lparr>current_timestamp := date, error_message := Some []\<rparr>))"
    if "hs = []"
    using that assms(1,3) c by (simp add: try_block_def)
  have n: "snd (main_cycle py w s)
             = Inr \<lparr>current_timestamp = date, error_message = Some []\<rparr>"
    if "hs = homework # rest" "parse_status py homework = Inr status"
       "bot_send_message w status = None
        \<or> (\<exists>raised. bot_send_message w status = Some raised \<and> is_TelegramError raised)"
    for homework rest status
  proof -
    from send_message_caught [OF that(3)]
    obtain evs where "send_message w status = (evs, Inr ())"
      by blast
    then have "try_block py w s
        = (evs, Inr (s\<lparr>current_timestamp := date, error_message := Some []\<rparr>))"
      using that(1,2) assms(1,3) c by (simp add: try_block_def)
    then show ?thesis
      by (simp add: main_cycle_def)
  qed
  have k: "current_timestamp s' = current_timestamp s"
    if "try_block py w s = (evs, Inl error) \<and> main_cycle py w s = (out, Inr s')"
    for evs error out s'
    using that
    by (auto simp: main_cycle_def except_block_def Let_def split: if_splits option.splits)
  have m: "main_cycle py w s
             = ([Log DEBUG MSG_NO_NEW, Sleep RETRY_TIME],
                Inr \<lparr>current_timestamp = date, error_message = Some []\<rparr>)"
    if "hs = []"
    using e [OF that] by (simp add: main_cycle_def)
  show ?thesis
  proof (intro conjI allI impI)
    show "check_response (PDict d) = Inr hs"
      by (rule c)
  next
    assume "hs = []"
    then show "main_cycle py w s
        = ([Log DEBUG MSG_NO_NEW, Sleep RETRY_TIME],
           Inr \<lparr>current_timestamp = date, error_message = Some []\<rparr>)"
      by (rule m)
  next
    fix homework rest status
    assume "hs = homework # rest \<and> parse_status py homework = Inr status
      \<and> (bot_send_message w status = None
         \<or> (\<exists>raised. bot_send_message w status = Some raised \<and> is_TelegramError raised))"
    then show "snd (main_cycle py w s)
        = Inr \<lparr>current_timestamp = date, error_message = Some []\<rparr>"
      using n [of homework rest status] by blast
  next
    fix evs s'
    assume "try_block py w s = (evs, Inr s')"
    then show "s' = \<lparr>current_timestamp = date, error_message = Some []\<rparr>"
      by (rule t)
  next
    fix evs error out s'
    assume "try_block py w s = (evs, Inl error) \<and> main_cycle py w s = (out, Inr s')"
    then show "current_timestamp s' = current_timestamp s"
      by (rule k)
  qed
qed

text \<open>A response whose \<^verbatim>\<open>current_date\<close> is the string \<^verbatim>\<open>tomorrow\<close>, with no homework and
  with the example homework, the bot delivering and the bot failing: the next cursor is that
  string.\<close>

theorem current_date_unexamined_witness:
  "check_response body_text_date = Inr []
   \<and> main_cycle cpython (world_of (api_ok body_text_date) bot_up) state_ok
       = ([Log DEBUG MSG_NO_NEW, Sleep 600],
          Inr \<lparr>current_timestamp = PStr ''tomorrow'', error_message = Some []\<rparr>)
   \<and> check_response body_hw1_text_date = Inr [homework_hw1]
   \<and> snd (main_cycle cpython (world_of (api_ok body_hw1_text_date) bot_up) state_ok)
       = Inr \<lparr>current_timestamp = PStr ''tomorrow'', error_message = Some []\<rparr>
   \<and> snd (main_cycle cpython (world_of (api_ok body_hw1_text_date) bot_down) state_ok)
       = Inr \<lparr>current_timestamp = PStr ''tomorrow'', error_message = Some []\<rparr>"
proof -
  have empty:
    "check_response body_text_date = Inr []
     \<and> main_cycle cpython (world_of (api_ok body_text_date) bot_up) state_ok
         = ([Log DEBUG MSG_NO_NEW, Sleep 600],
            Inr \<lparr>current_timestamp = PStr ''tomorrow'', error_message = Some []\<rparr>)"
    using current_date_unexamined
            [of "world_of (api_ok body_text_date) bot_up" state_ok
                "[(''homeworks'', PList []), (''current_date'', PStr ''tomorrow'')]" "[]"
                "PStr ''tomorrow''" cpython]
    by (simp add: get_api_answer_ok body_text_date_def RETRY_TIME_def)
  have parsed: "parse_status cpython homework_hw1
      = Inr (MSG_STATUS_CHANGED @ ''hw1'' @ MSG_STATUS_SEP @ VERDICT_APPROVED)"
    by (rule parse_status_hw1)
  have up: "bot_send_message (world_of (api_ok body_hw1_text_date) bot_up) message = None"
    for message
    by (simp add: world_of_sel bot_up_def)
  have down: "\<exists>raised. bot_send_message (world_of (api_ok body_hw1_text_date) bot_down) message
      = Some raised \<and> is_TelegramError raised" for message
    by (simp add: world_of_sel bot_down_def is_TelegramError_def)
  have delivered:
    "check_response body_hw1_text_date = Inr [homework_hw1]
     \<and> snd (main_cycle cpython (world_of (api_ok body_hw1_text_date) bot_up) state_ok)
         = Inr \<lparr>current_timestamp = PStr ''tomorrow'', error_message = Some []\<rparr>"
    using current_date_unexamined
            [of "world_of (api_ok body_hw1_text_date) bot_up" state_ok
                "[(''homeworks'', PList [homework_hw1]), (''current_date'', PStr ''tomorrow'')]"
                "[homework_hw1]" "PStr ''tomorrow''" cpython]
          parsed up
    by (simp add: get_api_answer_ok body_hw1_text_date_def)
  have dropped:
    "snd (main_cycle cpython (world_of (api_ok body_hw1_text_date) bot_down) state_ok)
       = Inr \<lparr>current_timestamp = PStr ''tomorrow'', error_message = Some []\<rparr>"
    using current_date_unexamined
            [of "world_of (api_ok body_hw1_text_date) bot_down" state_ok
                "[(''homeworks'', PList [homework_hw1]), (''current_date'', PStr ''tomorrow'')]"
                "[homework_hw1]" "PStr ''tomorrow''" cpython]
          parsed down
    by (simp add: get_api_answer_ok body_hw1_text_date_def)
  show ?thesis
    using empty delivered dropped by simp
qed

section \<open>Failure notifications\<close>

text \<open>
  Claim C6. A cycle whose \<^verbatim>\<open>try\<close> body completes leaves \<^verbatim>\<open>error_message\<close> empty. So when a
  failure text has reached the chat in one cycle, the next cycle completes, and the cycle
  after it fails (outside the easy class) with the same text, that text is handed to the bot
  again; if the bot takes it, the chat has received it twice over the three cycles.
\<close>

theorem success_resets_error_message:
  assumes success: "try_block py w2 s1 = (evs2, Inr s2)"
  shows "error_message s2 = Some []
       \<and> (main_cycle py w1 s = (out1, Inr s1) \<and> failure_message e \<in> set (delivered out1)
          \<and> try_block py w3 s2 = (evs3, Inl e') \<and> is_Exception e' \<and> \<not> is_EasyError e'
          \<and> failure_message e' = failure_message e \<longrightarrow>
            fst (main_cycle py w3 s2)
              = evs3 @ [Log ERROR (failure_message e),
                        BotSend (failure_message e) (bot_send_message w3 (failure_message e)),
                        Sleep RETRY_TIME]
            \<and> (bot_send_message w3 (failure_message e) = None \<longrightarrow>
                 delivered (fst (run py [w1, w2, w3] s))
                   = delivered out1 @ delivered evs2 @ [failure_message e]))"
proof (intro conjI impI)
  show reset: "error_message s2 = Some []"
    using try_block_Inr [OF success] by auto
  assume scenario:
    "main_cycle py w1 s = (out1, Inr s1) \<and> failure_message e \<in> set (delivered out1)
     \<and> try_block py w3 s2 = (evs3, Inl e') \<and> is_Exception e' \<and> \<not> is_EasyError e'
     \<and> failure_message e' = failure_message e"
  then have again: "try_block py w3 s2 = (evs3, Inl e')" "is_Exception e'"
      "\<not> is_EasyError e'"
    and same: "failure_message e' = failure_message e"
    and c1: "main_cycle py w1 s = (out1, Inr s1)"
    by simp_all
  have fresh: "failure_message e' \<noteq> []"
    by (rule failure_message_nonempty)
  have d3: "delivered evs3 = []"
    using again(1) by (rule try_block_Inl_delivered)
  have c2: "main_cycle py w2 s1 = (evs2 @ [Sleep RETRY_TIME], Inr s2)"
    using success by (rule main_cycle_success)
  show "fst (main_cycle py w3 s2)
          = evs3 @ [Log ERROR (failure_message e),
                    BotSend (failure_message e) (bot_send_message w3 (failure_message e)),
                    Sleep RETRY_TIME]"
  proof (cases "bot_send_message w3 (failure_message e')")
    case None
    from main_cycle_notified [OF again reset fresh None]
    show ?thesis using same None by simp
  next
    case (Some raised)
    from main_cycle_send_raises [OF again reset fresh Some]
    show ?thesis using same Some by simp
  qed
  assume "bot_send_message w3 (failure_message e) = None"
  then have accepted: "bot_send_message w3 (failure_message e') = None"
    using same by simp
  from main_cycle_notified [OF again reset fresh accepted]
  show "delivered (fst (run py [w1, w2, w3] s))
          = delivered out1 @ delivered evs2 @ [failure_message e]"
    using c1 c2 d3 same by (simp add: delivered_append)
qed

text \<open>A 500 answer, the empty example response, a 500 answer again: the chat receives the
  failure text twice.\<close>

theorem success_resets_error_message_witness:
  "delivered (fst (run cpython
      [world_of api_500 bot_up, world_of (api_ok body_empty) bot_up, world_of api_500 bot_up]
      state_ok))
     = [MSG_FAILURE @ MSG_UNEXPECTED_STATUS @ ''500'',
        MSG_FAILURE @ MSG_UNEXPECTED_STATUS @ ''500'']"
  using success_resets_error_message
          [where py = cpython and ?w2.0 = "world_of (api_ok body_empty) bot_up"
             and ?s1.0 = state_500 and ?evs2.0 = "[Log DEBUG MSG_NO_NEW]"
             and ?s2.0 = state_ok and ?w1.0 = "world_of api_500 bot_up" and s = state_ok
             and ?out1.0 = "[Log ERROR (MSG_FAILURE @ MSG_UNEXPECTED_STATUS @ ''500''),
                  BotSend (MSG_FAILURE @ MSG_UNEXPECTED_STATUS @ ''500'') None, Sleep 600]"
             and e = "Exn PyException (MSG_UNEXPECTED_STATUS @ ''500'')"
             and ?w3.0 = "world_of api_500 bot_up" and ?evs3.0 = "[]"
             and e' = "Exn PyException (MSG_UNEXPECTED_STATUS @ ''500'')"]
  by (simp add: main_cycle_def try_block_500 try_block_empty except_block_def Let_def
        generic_PyException failure_message_def MSG_FAILURE_nonempty state_ok_def
        state_500_def world_of_sel bot_up_def RETRY_TIME_def)

text \<open>
  Claim C1, as stated, fails on a third identical failure. After the empty example
  response and a reported 500 answer the loop is in \<open>state_500\<close>; the two cycles that follow
  fail with the same text again, and across the two of them nothing is sent.
\<close>

theorem repeated_failure_counterexample:
  "snd (run cpython [world_of (api_ok body_empty) bot_up, world_of api_500 bot_up] state_start)
     = Inr state_500
   \<and> try_block cpython (world_of api_500 bot_up) state_500
     = ([], Inl (Exn PyException (MSG_UNEXPECTED_STATUS @ ''500'')))
   \<and> main_cycle cpython (world_of api_500 bot_up) state_500
     = ([Log ERROR (MSG_FAILURE @ MSG_UNEXPECTED_STATUS @ ''500''), Sleep 600], Inr state_500)
   \<and> delivered (fst (run cpython [world_of api_500 bot_up, world_of api_500 bot_up] state_500))
     = []"
  by (simp add: main_cycle_def try_block_500 try_block_empty except_block_def Let_def
        generic_PyException failure_message_def MSG_FAILURE_nonempty state_start_def
        state_500_def world_of_sel bot_up_def RETRY_TIME_def)

text \<open>
  Claim C1, amended. Take two consecutive cycles that both fail outside the easy class,
  the first entered with \<^verbatim>\<open>error_message\<close> bound to a text other than the failure text of
  that cycle, and the bot taking that text. If the second cycle's failure text is the same,
  exactly one text reaches the chat across the two cycles; if it differs and the bot takes
  it, it is sent as a second one.
\<close>

theorem identical_failures_notified_once:
  assumes first: "try_block py w1 s = (evs1, Inl e1)" "is_Exception e1" "\<not> is_EasyError e1"
      and fresh: "error_message s = Some sent" "failure_message e1 \<noteq> sent"
      and accepted: "bot_send_message w1 (failure_message e1) = None"
      and second: "try_block py w2 (s\<lparr>error_message := Some (failure_message e1)\<rparr>) = (evs2, Inl e2)"
                  "is_Exception e2" "\<not> is_EasyError e2"
  shows "(failure_message e2 = failure_message e1 \<longrightarrow>
            delivered (fst (run py [w1, w2] s)) = [failure_message e1]
            \<and> snd (run py [w1, w2] s) = Inr (s\<lparr>error_message := Some (failure_message e1)\<rparr>))
       \<and> (failure_message e2 \<noteq> failure_message e1
            \<and> bot_send_message w2 (failure_message e2) = None \<longrightarrow>
            delivered (fst (run py [w1, w2] s)) = [failure_message e1, failure_message e2]
            \<and> snd (run py [w1, w2] s) = Inr (s\<lparr>error_message := Some (failure_message e2)\<rparr>))"
proof -
  let ?s1 = "s\<lparr>error_message := Some (failure_message e1)\<rparr>"
  have d1: "delivered evs1 = []" and d2: "delivered evs2 = []"
    using first(1) second(1) by (auto dest: try_block_Inl_delivered)
  have c1: "main_cycle py w1 s =
      (evs1 @ [Log ERROR (failure_message e1), BotSend (failure_message e1) None,
               Sleep RETRY_TIME], Inr ?s1)"
    using first fresh accepted by (rule main_cycle_notified)
  have same: "failure_message e2 = failure_message e1 \<Longrightarrow>
      main_cycle py w2 ?s1 = (evs2 @ [Log ERROR (failure_message e2), Sleep RETRY_TIME], Inr ?s1)"
    using main_cycle_repeated [OF second] by simp
  have differ: "failure_message e2 \<noteq> failure_message e1 \<Longrightarrow>
      bot_send_message w2 (failure_message e2) = None \<Longrightarrow>
      main_cycle py w2 ?s1 =
        (evs2 @ [Log ERROR (failure_message e2), BotSend (failure_message e2) None,
                 Sleep RETRY_TIME], Inr (?s1\<lparr>error_message := Some (failure_message e2)\<rparr>))"
    using main_cycle_notified [OF second, of "failure_message e1"] by simp
  show ?thesis
    using c1 same differ d1 d2 by (auto simp: delivered_append)
qed

text \<open>After a successful cycle: two 500 answers send one text; a 500 answer followed by
  an unreachable API sends two.\<close>

theorem identical_failures_notified_once_witness:
  "delivered (fst (run cpython [world_of api_500 bot_up, world_of api_500 bot_up] state_ok))
     = [MSG_FAILURE @ MSG_UNEXPECTED_STATUS @ ''500'']
   \<and> delivered (fst (run cpython [world_of api_500 bot_up, world_of api_down bot_up] state_ok))
     = [MSG_FAILURE @ MSG_UNEXPECTED_STATUS @ ''500'', MSG_FAILURE @ MSG_ENDPOINT]"
  using identical_failures_notified_once
          [of cpython "world_of api_500 bot_up" state_ok "[]"
              "Exn PyException (MSG_UNEXPECTED_STATUS @ ''500'')" "[]"
              "world_of api_500 bot_up" "[]"
              "Exn PyException (MSG_UNEXPECTED_STATUS @ ''500'')"]
        identical_failures_notified_once
          [of cpython "world_of api_500 bot_up" state_ok "[]"
              "Exn PyException (MSG_UNEXPECTED_STATUS @ ''500'')" "[]"
              "world_of api_down bot_up" "[]" "Exn PyException MSG_ENDPOINT"]
        messages_differ
  by (simp add: try_block_500 try_block_down generic_PyException state_ok_def
        failure_message_nonempty)
     (simp add: failure_message_def world_of_sel bot_up_def)

section \<open>The easy class\<close>

text \<open>
  Claim C5, as stated, fails for a record without \<^verbatim>\<open>homework_name\<close>: \<open>parse_status\<close>
  raises a built-in \<^verbatim>\<open>KeyError\<close>, the second \<^verbatim>\<open>except\<close> clause takes it, and after a
  successful cycle its text is sent to the chat.
\<close>

theorem missing_name_counterexample:
  "parse_status cpython (PDict [(''status'', PStr ''approved'')])
     = Inl (Exn PyKeyError (quoted MSG_NO_HOMEWORK_NAME))
   \<and> main_cycle cpython (world_of (api_ok body_no_name) bot_up) state_ok
     = ([Log ERROR (MSG_FAILURE @ quoted MSG_NO_HOMEWORK_NAME),
         BotSend (MSG_FAILURE @ quoted MSG_NO_HOMEWORK_NAME) None,
         Sleep 600],
        Inr \<lparr>current_timestamp = PInt 1700000100,
             error_message = Some (MSG_FAILURE @ quoted MSG_NO_HOMEWORK_NAME)\<rparr>)"
  by (simp add: main_cycle_def try_block_no_name parse_status_no_name except_block_def
        Let_def is_Exception_def is_EasyError_def failure_message_def MSG_FAILURE_nonempty
        world_of_sel bot_up_def RETRY_TIME_def state_ok_def repr_cpython)

text \<open>
  Claim C5, amended. In a cycle whose response is a dict lacking \<^verbatim>\<open>homeworks\<close> or
  \<^verbatim>\<open>current_date\<close>, \<open>check_response\<close> raises the missing-field error, which is of the easy
  class: the cycle logs its text at error level, sleeps, hands nothing to the bot and keeps
  its state. A record lacking \<^verbatim>\<open>homework_name\<close> or \<^verbatim>\<open>status\<close> makes \<open>parse_status\<close> raise a
  \<^verbatim>\<open>KeyError\<close>, which is an \<^verbatim>\<open>Exception\<close> outside the easy class.
\<close>

theorem missing_response_field_swallowed:
  assumes "get_api_answer w (current_timestamp s) = Inr (PDict d)"
      and "map_of d ''homeworks'' = None \<or> map_of d ''current_date'' = None"
  shows "(\<exists>error. check_response (PDict d) = Inl error \<and> exn_cls error = EmptyKeyError
            \<and> is_EasyError error
            \<and> main_cycle py w s = ([Log ERROR (exn_str error), Sleep RETRY_TIME], Inr s))
         \<and> attempted (fst (main_cycle py w s)) = []
         \<and> (\<forall>h. map_of h ''homework_name'' = None \<or> map_of h ''status'' = None \<longrightarrow>
               (\<exists>error. parse_status py (PDict h) = Inl error \<and> exn_cls error = PyKeyError
                  \<and> \<not> is_EasyError error \<and> is_Exception error))"
proof -
  have "\<exists>error. check_response (PDict d) = Inl error \<and> exn_cls error = EmptyKeyError"
    using assms(2) by (cases "map_of d ''homeworks''") (auto simp: check_response_def)
  then obtain error
    where e: "check_response (PDict d) = Inl error" "exn_cls error = EmptyKeyError"
    by blast
  have easy: "is_EasyError error"
    using e(2) by (simp add: is_EasyError_def)
  have "try_block py w s = ([], Inl error)"
    using assms(1) e(1) by (simp add: try_block_def)
  from main_cycle_easy [OF this easy]
  have c: "main_cycle py w s = ([Log ERROR (exn_str error), Sleep RETRY_TIME], Inr s)"
    by simp
  have k: "\<exists>error. parse_status py (PDict h) = Inl error \<and> exn_cls error = PyKeyError
             \<and> \<not> is_EasyError error \<and> is_Exception error"
    if "map_of h ''homework_name'' = None \<or> map_of h ''status'' = None" for h
    using that
    by (cases "map_of h ''homework_name''")
       (auto simp: parse_status_no_name parse_status_no_status is_EasyError_def
          is_Exception_def)
  show ?thesis
    using e easy c k by auto
qed

text \<open>A response without \<^verbatim>\<open>current_date\<close> is logged and nothing more; a record without
  a name raises a \<^verbatim>\<open>KeyError\<close>.\<close>

theorem missing_response_field_swallowed_witness:
  "main_cycle cpython (world_of (api_ok body_no_date) bot_up) state_ok
     = ([Log ERROR MSG_NO_CURRENT_DATE, Sleep 600], Inr state_ok)
   \<and> raises PyKeyError (parse_status cpython (PDict [(''status'', PStr ''approved'')]))"
  using missing_response_field_swallowed
          [of "world_of (api_ok body_no_date) bot_up" state_ok
              "[(''homeworks'', PList [homework_hw1])]" cpython]
  by (auto simp: get_api_answer_def world_of_sel api_ok_def body_no_date_def
        check_response_def RETRY_TIME_def parse_status_no_name)

section \<open>Exceptions that leave the loop\<close>

text \<open>
  Claim C2 asks that no error of a cycle ends the process. The code ends it in two
  cases. When the first cycle fails (here: the API is unreachable), the handler reads
  \<^verbatim>\<open>error_message\<close> before any assignment to it, and the \<^verbatim>\<open>UnboundLocalError\<close> leaves the loop.
  When the bot raises on a failure notification (here: after one successful cycle), that
  error leaves the loop as well.
\<close>

theorem first_failure_ends_process:
  "main cpython tokens_set 1699999000 [world_of api_down bot_up]
     = ([Log ERROR (MSG_FAILURE @ MSG_ENDPOINT), Sleep 600],
        Inl (Exn PyUnboundLocalError
               (''local variable '' @ quoted ''error_message''
                @ '' referenced before assignment'')))
   \<and> main cpython tokens_set 1699999000
         [world_of (api_ok body_empty) bot_up, world_of api_down bot_down]
     = ([Log DEBUG MSG_NO_NEW, Sleep 600, Log ERROR (MSG_FAILURE @ MSG_ENDPOINT),
         BotSend (MSG_FAILURE @ MSG_ENDPOINT) (Some (Exn TelegramError ''Timed out'')),
         Sleep 600],
        Inl (Exn TelegramError ''Timed out''))"
  by (simp add: main_def check_tokens_def tokens_set_def main_cycle_def try_block_down
        try_block_empty except_block_def Let_def generic_PyException failure_message_def
        MSG_FAILURE_nonempty world_of_sel bot_down_def RETRY_TIME_def repr_cpython)

text \<open>
  Claim C8 asks that a transport error of the bot is caught where the text is sent, on both
  paths. On the failure path it is not: after a successful cycle, a 500 answer with the bot
  failing ends the loop with the bot's error. On the status path \<open>send_message\<close> catches it:
  the example response with the bot failing is a completed cycle, logged at debug level,
  with the cursor moved.
\<close>

theorem failure_notification_send_not_caught:
  "main_cycle cpython (world_of api_500 bot_down) state_ok
     = ([Log ERROR (MSG_FAILURE @ MSG_UNEXPECTED_STATUS @ ''500''),
         BotSend (MSG_FAILURE @ MSG_UNEXPECTED_STATUS @ ''500'')
           (Some (Exn TelegramError ''Timed out'')),
         Sleep 600],
        Inl (Exn TelegramError ''Timed out''))
   \<and> main_cycle cpython (world_of (api_ok body_hw1) bot_down) state_ok
     = ([BotSend (MSG_STATUS_CHANGED @ ''hw1'' @ MSG_STATUS_SEP @ VERDICT_APPROVED)
           (Some (Exn TelegramError ''Timed out'')),
         Log DEBUG (MSG_SEND_FAILED @ ''Timed out''),
         Sleep 600],
        Inr \<lparr>current_timestamp = PInt 1700000000, error_message = Some []\<rparr>)"
  by (simp add: main_cycle_def try_block_500 try_block_hw1 send_message_def
        is_TelegramError_def except_block_def Let_def generic_PyException
        failure_message_def MSG_FAILURE_nonempty world_of_sel bot_down_def RETRY_TIME_def
        state_ok_def)

end
